theory Spec2Isabelle
  imports Complex_Main
begin

section \<open>Numbers\<close>

text \<open>
  The engine computes on JavaScript numbers. Token counts, prices and costs are \<open>real\<close>,
  the counts of students and of requests per student and the turn indices are \<open>int\<close>.
  The cost functions and the simulation are modelled by exact arithmetic. The function
  \<open>computeSummarizationCost\<close> is modelled on doubles: its result \<open>summaryCachingViable\<close>
  compares a whole number of turns with a quotient of prices, and when the two are equal
  as exact numbers it is the rounding of the quotient that decides the comparison. The
  one place where the code produces \<open>Infinity\<close> on purpose (the break-even threshold) has
  a type of its own.
\<close>

datatype jsnum = Num real | Infinity

text \<open>\<open>a >= b\<close> for a finite \<open>a\<close> and a possibly infinite \<open>b\<close>.\<close>

fun js_ge :: "real \<Rightarrow> jsnum \<Rightarrow> bool" where
  "js_ge a (Num b) = (b \<le> a)"
| "js_ge a Infinity = False"

text \<open>\<open>x ?? d\<close>: the value, or the default for \<open>null\<close>.\<close>

fun nullish :: "'a option \<Rightarrow> 'a \<Rightarrow> 'a" where
  "nullish (Some v) d = v"
| "nullish None d = d"

text \<open>\<open>Math.round\<close>: the nearest integer, halves rounded up.\<close>

definition Math_round :: "real \<Rightarrow> int" where
  "Math_round x = \<lfloor>x + 1 / 2\<rfloor>"

subsection \<open>Doubles\<close>

text \<open>
  A double is a number \<open>m * 2 ^ e\<close> with a whole mantissa \<open>m\<close> of at most 53 bits. The
  result of an arithmetic operation is the double nearest to the exact result, and of two
  doubles that are equally near the one with the even mantissa. The range of the
  exponent is not bounded here: overflow and gradual underflow, which need magnitudes
  beyond the 308th power of ten or below its inverse, are outside the model. So is
  \<open>NaN\<close>, which the operations below never meet: every division is by 1000 or by a number
  that the code has tested to be positive.
\<close>

text \<open>The nearest integer, halves to the even one.\<close>

definition round_half_even :: "real \<Rightarrow> int" where
  "round_half_even y =
     (let f = \<lfloor>y\<rfloor>; d = y - of_int f
      in if d < 1 / 2 then f else if 1 / 2 < d then f + 1 else if even f then f else f + 1)"

text \<open>
  The exponent of a positive number \<open>x\<close>: the \<open>e\<close> with \<open>2 ^ e \<le> x < 2 ^ (e + 1)\<close>, found by
  halving a number that is at least 2, and by doubling one that is less than 1.
\<close>

function expo_up :: "real \<Rightarrow> int" where
  "expo_up x = (if 2 \<le> x then expo_up (x / 2) + 1 else 0)"
  by pat_completeness auto
termination
proof (relation "measure (\<lambda>x. nat \<lfloor>x\<rfloor>)")
  fix x :: real
  assume h: "2 \<le> x"
  have "x / 2 \<le> x - 1"
    using h by simp
  then have "\<lfloor>x / 2\<rfloor> \<le> \<lfloor>x - 1\<rfloor>"
    by (rule floor_mono)
  moreover have "2 \<le> \<lfloor>x\<rfloor>"
    using h by (simp add: le_floor_iff)
  ultimately show "(x / 2, x) \<in> measure (\<lambda>x. nat \<lfloor>x\<rfloor>)"
    by simp
qed simp

function expo_down :: "real \<Rightarrow> int" where
  "expo_down x = (if 0 < x \<and> x < 1 then expo_down (2 * x) - 1 else 0)"
  by pat_completeness auto
termination
proof (relation "measure (\<lambda>x. nat \<lceil>1 / x\<rceil>)")
  fix x :: real
  assume h: "0 < x \<and> x < 1"
  have y: "1 < 1 / x"
    using h by simp
  then have c: "2 \<le> \<lceil>1 / x\<rceil>"
    by (simp add: le_ceiling_iff)
  have "1 / (2 * x) = (1 / x) / 2"
    by simp
  also have "\<dots> \<le> of_int \<lceil>1 / x\<rceil> / 2"
    by (simp add: divide_right_mono)
  also have "\<dots> \<le> of_int (\<lceil>1 / x\<rceil> - 1)"
    using c by simp
  finally have "1 / (2 * x) \<le> of_int (\<lceil>1 / x\<rceil> - 1)" .
  then have "\<lceil>1 / (2 * x)\<rceil> \<le> \<lceil>1 / x\<rceil> - 1"
    by (simp only: ceiling_le_iff)
  then have "nat \<lceil>1 / (2 * x)\<rceil> < nat \<lceil>1 / x\<rceil>"
    using c by linarith
  then show "(2 * x, x) \<in> measure (\<lambda>x. nat \<lceil>1 / x\<rceil>)"
    by simp
qed simp

declare expo_up.simps [simp del] expo_down.simps [simp del]

definition exponent :: "real \<Rightarrow> int" where
  "exponent x = (if 1 \<le> x then expo_up x else expo_down x)"

text \<open>
  The double nearest to \<open>x\<close>: \<open>x\<close> is rounded to a multiple of \<open>2 ^ (e - 52)\<close>, where \<open>e\<close> is
  the exponent of \<open>\<bar>x\<bar>\<close>.
\<close>

definition js_double :: "real \<Rightarrow> real" where
  "js_double x =
     (if x = 0 then 0
      else let u = 2 powi (exponent \<bar>x\<bar> - 52)
           in of_int (round_half_even (x / u)) * u)"

text \<open>The four operations of the language on doubles.\<close>

definition js_add :: "real \<Rightarrow> real \<Rightarrow> real" where
  "js_add a b = js_double (a + b)"

definition js_sub :: "real \<Rightarrow> real \<Rightarrow> real" where
  "js_sub a b = js_double (a - b)"

definition js_mul :: "real \<Rightarrow> real \<Rightarrow> real" where
  "js_mul a b = js_double (a * b)"

definition js_div :: "real \<Rightarrow> real \<Rightarrow> real" where
  "js_div a b = js_double (a / b)"

section \<open>Types of simulator-engine.ts and pricing-data.ts\<close>

datatype CacheTTL = TTL_5min | TTL_1hour

datatype DisplayMode = strategy_comparison | caching_insights

datatype SensitivityParamKey =
  K_students | K_reqsPerStudent | K_sysTokens | K_ctxTokens | K_subTokens | K_instTokens
  | K_outputTokens

record ModelPricing =
  input_1k :: real
  output_1k :: real
  cache_write_1k :: "real option"
  cache_write_1hour_1k :: "real option"
  cache_read_1k :: "real option"
  batch_input_1k :: "real option"
  batch_output_1k :: "real option"

text \<open>
  Of a model the engine reads the prices only. The capability flags of a model are read
  by the component, and appear in its state below.
\<close>

record BedrockModel =
  pricing :: ModelPricing

record CostBreakdown =
  cacheWrite :: real
  cacheRead :: real
  freshInput :: real
  output' :: real
  guardrails :: real
  total :: real

record SumStrategyBreakdown = CostBreakdown +
  summarizationCalls :: real

record SummarizationSim =
  historyPerTurn :: "real list"
  summarizationTurns :: "int list"
  totalHistoryTokensSent :: real
  avgHistoryPerTurn :: real
  numSummarizations :: int
  turnsPerCycle :: int

record SummarizationCostResult =
  mainCallCost :: real
  summarizationCallCost :: real
  totalCost :: real
  r_numSummarizations :: int
  r_avgHistoryPerTurn :: real
  vsWindowSavings :: real
  vsWindowSavingsPct :: real
  r_turnsPerCycle :: int
  breakEvenK :: jsnum
  summaryCachingViable :: bool
  summaryCachingSavings :: real

section \<open>Constants\<close>

definition CHARS_PER_TOKEN :: real where
  "CHARS_PER_TOKEN = 4"

definition GUARDRAILS_COST_PER_1K_UNITS :: real where
  "GUARDRAILS_COST_PER_1K_UNITS = 0.15"

fun SENSITIVITY_SAMPLE_POINTS :: "SensitivityParamKey \<Rightarrow> int list" where
  "SENSITIVITY_SAMPLE_POINTS K_students = [5, 10, 15, 20, 30, 50, 75, 100, 150, 200]"
| "SENSITIVITY_SAMPLE_POINTS K_reqsPerStudent = [1, 5, 10, 20, 50, 75, 100, 150, 200]"
| "SENSITIVITY_SAMPLE_POINTS K_sysTokens = [100, 500, 1000, 2000, 5000, 10000]"
| "SENSITIVITY_SAMPLE_POINTS K_ctxTokens = [500, 1000, 2000, 5000, 10000, 25000, 50000, 100000]"
| "SENSITIVITY_SAMPLE_POINTS K_subTokens = [100, 500, 1000, 2000, 5000, 10000, 20000]"
| "SENSITIVITY_SAMPLE_POINTS K_instTokens = [50, 200, 500, 1000, 2000, 5000, 10000]"
| "SENSITIVITY_SAMPLE_POINTS K_outputTokens = [100, 500, 1000, 2000, 5000, 10000]"

section \<open>Cost calculation functions\<close>

definition getCacheWritePrice :: "BedrockModel \<Rightarrow> CacheTTL \<Rightarrow> real" where
  "getCacheWritePrice model cacheTTL =
     (let p = pricing model in
      if cacheTTL = TTL_1hour \<and> cache_write_1hour_1k p \<noteq> None
      then nullish (cache_write_1hour_1k p) 0
      else nullish (cache_write_1k p) 0)"

definition computeStrategyA ::
  "BedrockModel \<Rightarrow> int \<Rightarrow> int \<Rightarrow> real \<Rightarrow> real \<Rightarrow> real \<Rightarrow> real \<Rightarrow> real \<Rightarrow> real \<Rightarrow> CacheTTL
    \<Rightarrow> CostBreakdown" where
  "computeStrategyA model students reqsPerStudent sysTokens ctxTokens subTokens instTokens
      outputTokens tierMultiplier cacheTTL =
     (let p = pricing model;
          pInput = input_1k p * tierMultiplier;
          pOutput = output_1k p * tierMultiplier;
          pWrite = getCacheWritePrice model cacheTTL * tierMultiplier;
          pRead = nullish (cache_read_1k p) 0 * tierMultiplier;
          totalRequests = students * reqsPerStudent;
          cachedTokens = sysTokens + ctxTokens;
          freshTokens = subTokens + instTokens;
          cw = (cachedTokens / 1000) * pWrite;
          cr = (of_int totalRequests - 1) * (cachedTokens / 1000) * pRead;
          fi = of_int totalRequests * (freshTokens / 1000) * pInput;
          out = of_int totalRequests * (outputTokens / 1000) * pOutput
      in \<lparr>cacheWrite = cw, cacheRead = cr, freshInput = fi, output' = out, guardrails = 0,
          total = cw + cr + fi + out\<rparr>)"

definition computeStrategyB ::
  "BedrockModel \<Rightarrow> int \<Rightarrow> int \<Rightarrow> real \<Rightarrow> real \<Rightarrow> real \<Rightarrow> real \<Rightarrow> real \<Rightarrow> real \<Rightarrow> bool
    \<Rightarrow> CacheTTL \<Rightarrow> CostBreakdown" where
  "computeStrategyB model students reqsPerStudent sysTokens ctxTokens subTokens instTokens
      outputTokens tierMultiplier submissionCacheable cacheTTL =
     (let p = pricing model;
          pInput = input_1k p * tierMultiplier;
          pOutput = output_1k p * tierMultiplier;
          pWrite = getCacheWritePrice model cacheTTL * tierMultiplier;
          pRead = nullish (cache_read_1k p) 0 * tierMultiplier;
          totalRequests = students * reqsPerStudent;
          sharedTokens = sysTokens + ctxTokens;
          fullCachedTokens = sharedTokens + subTokens;
          cw = (if submissionCacheable
                then of_int students * (fullCachedTokens / 1000) * pWrite
                else (sharedTokens / 1000) * pWrite
                  + of_int totalRequests * (subTokens / 1000) * pWrite);
          cr = (if submissionCacheable
                then of_int students * (of_int reqsPerStudent - 1) * (fullCachedTokens / 1000)
                  * pRead
                else (of_int totalRequests - 1) * (sharedTokens / 1000) * pRead);
          fi = of_int totalRequests * (instTokens / 1000) * pInput;
          out = of_int totalRequests * (outputTokens / 1000) * pOutput
      in \<lparr>cacheWrite = cw, cacheRead = cr, freshInput = fi, output' = out, guardrails = 0,
          total = cw + cr + fi + out\<rparr>)"

definition computeNoCaching ::
  "BedrockModel \<Rightarrow> int \<Rightarrow> int \<Rightarrow> real \<Rightarrow> real \<Rightarrow> real \<Rightarrow> real \<Rightarrow> real \<Rightarrow> real
    \<Rightarrow> CostBreakdown" where
  "computeNoCaching model students reqsPerStudent sysTokens ctxTokens subTokens instTokens
      outputTokens tierMultiplier =
     (let p = pricing model;
          pInput = input_1k p * tierMultiplier;
          pOutput = output_1k p * tierMultiplier;
          totalRequests = students * reqsPerStudent;
          allInputTokens = sysTokens + ctxTokens + subTokens + instTokens;
          fi = of_int totalRequests * (allInputTokens / 1000) * pInput;
          out = of_int totalRequests * (outputTokens / 1000) * pOutput
      in \<lparr>cacheWrite = 0, cacheRead = 0, freshInput = fi, output' = out, guardrails = 0,
          total = fi + out\<rparr>)"

definition computeBatch ::
  "BedrockModel \<Rightarrow> int \<Rightarrow> int \<Rightarrow> real \<Rightarrow> real \<Rightarrow> real \<Rightarrow> real \<Rightarrow> real \<Rightarrow> real
    \<Rightarrow> CostBreakdown" where
  "computeBatch model students reqsPerStudent sysTokens ctxTokens subTokens instTokens
      outputTokens tierMultiplier =
     (let p = pricing model;
          pInput = nullish (batch_input_1k p) (input_1k p) * tierMultiplier;
          pOutput = nullish (batch_output_1k p) (output_1k p) * tierMultiplier;
          totalRequests = students * reqsPerStudent;
          allInputTokens = sysTokens + ctxTokens + subTokens + instTokens;
          fi = of_int totalRequests * (allInputTokens / 1000) * pInput;
          out = of_int totalRequests * (outputTokens / 1000) * pOutput
      in \<lparr>cacheWrite = 0, cacheRead = 0, freshInput = fi, output' = out, guardrails = 0,
          total = fi + out\<rparr>)"

section \<open>Graduated chat history model\<close>

definition computeTokensPerExchange :: "real \<Rightarrow> int" where
  "computeTokensPerExchange outputTokens = Math_round (outputTokens * 1.25)"

definition computeAvgHistoryTokens :: "real \<Rightarrow> int \<Rightarrow> real \<Rightarrow> real" where
  "computeAvgHistoryTokens historyCap reqsPerStudent outputTokens =
     (if reqsPerStudent \<le> 0 \<or> historyCap \<le> 0 then 0
      else let tpe = computeTokensPerExchange outputTokens in
        if tpe \<le> 0 then historyCap
        else let rampCount = min \<lceil>historyCap / of_int tpe\<rceil> reqsPerStudent;
                 rampSum = of_int tpe * of_int rampCount * (of_int rampCount - 1) / 2;
                 cappedCount = max 0 (reqsPerStudent - rampCount);
                 cappedSum = historyCap * of_int cappedCount
             in (rampSum + cappedSum) / of_int reqsPerStudent)"

definition computeHistoryAtTurn :: "int \<Rightarrow> real \<Rightarrow> real \<Rightarrow> real" where
  "computeHistoryAtTurn turn historyCap outputTokens =
     (if turn \<le> 1 then 0
      else let tpe = computeTokensPerExchange outputTokens in
        min ((of_int turn - 1) * of_int tpe) historyCap)"

definition getEffectiveInstTokens :: "real \<Rightarrow> int \<Rightarrow> real \<Rightarrow> bool \<Rightarrow> real" where
  "getEffectiveInstTokens instTokens reqsPerStudent outputTokens conversational =
     (if \<not> conversational then instTokens
      else computeAvgHistoryTokens instTokens reqsPerStudent outputTokens)"

section \<open>Progressive submission model\<close>

definition getEffectiveSubTokens :: "real \<Rightarrow> int \<Rightarrow> bool \<Rightarrow> real" where
  "getEffectiveSubTokens subTokens reqsPerStudent progressiveSubmission =
     (if \<not> progressiveSubmission \<or> reqsPerStudent \<le> 1 then subTokens else subTokens / 2)"

section \<open>Summarization simulation\<close>

text \<open>
  The state of the loop of \<open>simulateSummarization\<close>: the two arrays it pushes to, and
  the locals \<open>history\<close> and \<open>total\<close>.
\<close>

record SimLoop =
  l_historyPerTurn :: "real list"
  l_summarizationTurns :: "int list"
  l_history :: real
  l_total :: real

function simLoop :: "int \<Rightarrow> int \<Rightarrow> real \<Rightarrow> int \<Rightarrow> real \<Rightarrow> SimLoop \<Rightarrow> SimLoop" where
  "simLoop t reqsPerStudent historyCap tpe summarySize s =
     (if t \<le> reqsPerStudent then
        (let s1 = s\<lparr>l_historyPerTurn := l_historyPerTurn s @ [l_history s],
                     l_total := l_total s + l_history s,
                     l_history := l_history s + of_int tpe\<rparr>;
             s2 = (if historyCap \<le> l_history s1 \<and> t < reqsPerStudent
                   then s1\<lparr>l_summarizationTurns := l_summarizationTurns s1 @ [t],
                           l_history := summarySize\<rparr>
                   else s1)
         in simLoop (t + 1) reqsPerStudent historyCap tpe summarySize s2)
      else s)"
  by pat_completeness auto
termination
  by (relation "measure (\<lambda>(t, n, _). nat (n + 1 - t))") auto

declare simLoop.simps [simp del]

definition simulateSummarization :: "int \<Rightarrow> real \<Rightarrow> real \<Rightarrow> real \<Rightarrow> SummarizationSim" where
  "simulateSummarization reqsPerStudent historyCap outputTokens summarySize =
     (let tpe = computeTokensPerExchange outputTokens in
      if tpe \<le> 0 \<or> reqsPerStudent \<le> 0 \<or> historyCap \<le> 0 then
        \<lparr>historyPerTurn = [], summarizationTurns = [], totalHistoryTokensSent = 0,
         avgHistoryPerTurn = 0, numSummarizations = 0, turnsPerCycle = 0\<rparr>
      else
        let s = simLoop 1 reqsPerStudent historyCap tpe summarySize
                  \<lparr>l_historyPerTurn = [], l_summarizationTurns = [], l_history = 0,
                   l_total = 0\<rparr>;
            tpc = (if 0 < tpe then \<lceil>(historyCap - summarySize) / of_int tpe\<rceil> else 0)
        in \<lparr>historyPerTurn = l_historyPerTurn s,
            summarizationTurns = l_summarizationTurns s,
            totalHistoryTokensSent = l_total s,
            avgHistoryPerTurn = (if 0 < reqsPerStudent then l_total s / of_int reqsPerStudent
                                 else 0),
            numSummarizations = int (length (l_summarizationTurns s)),
            turnsPerCycle = tpc\<rparr>)"

text \<open>
  \<open>computeSummarizationCost\<close>, on doubles: every \<open>+\<close>, \<open>-\<close>, \<open>*\<close> and \<open>/\<close> of the source is
  the operation on doubles, in the order in which the language evaluates them. The
  arguments stand for the doubles that the program holds: a price that the source writes
  as a decimal is the double nearest to it. The simulation is modelled by exact
  arithmetic, and its total and its average enter here as the nearest doubles: on whole
  token counts the total is exact in the code, and the average is the one quotient that
  the code rounds. The comparison \<open>sim.turnsPerCycle >= breakEvenK\<close> is \<open>js_ge\<close>: it is false
  when the threshold is \<open>Infinity\<close>.
\<close>

definition computeSummarizationCost ::
  "BedrockModel \<Rightarrow> int \<Rightarrow> int \<Rightarrow> real \<Rightarrow> real \<Rightarrow> real \<Rightarrow> real \<Rightarrow> real \<Rightarrow> real \<Rightarrow> real
    \<Rightarrow> CacheTTL \<Rightarrow> real \<Rightarrow> SummarizationCostResult" where
  "computeSummarizationCost model students reqsPerStudent sysTokens ctxTokens subTokens
      instTokens outputTokens summarySize tierMultiplier cacheTTL windowCostTotal =
     (let p = pricing model;
          pInput = js_mul (input_1k p) tierMultiplier;
          pOutput = js_mul (output_1k p) tierMultiplier;
          pRead = js_mul (nullish (cache_read_1k p) 0) tierMultiplier;
          pWrite = js_mul (getCacheWritePrice model cacheTTL) tierMultiplier;
          sim = simulateSummarization reqsPerStudent instTokens outputTokens summarySize;
          cachedPrefix = js_add sysTokens ctxTokens;
          totalReqs = js_mul (of_int students) (of_int reqsPerStudent);
          cw = js_mul (js_div cachedPrefix 1000) pWrite;
          cr = js_mul (js_mul (js_sub totalReqs 1) (js_div cachedPrefix 1000)) pRead;
          fi = js_add
            (js_mul
               (js_mul (of_int students)
                  (js_div (js_double (totalHistoryTokensSent sim)) 1000))
               pInput)
            (js_mul (js_mul totalReqs (js_div subTokens 1000)) pInput);
          out = js_mul (js_mul totalReqs (js_div outputTokens 1000)) pOutput;
          mainCall = js_add (js_add (js_add cw cr) fi) out;
          perSumInput = js_mul (js_div (js_add sysTokens instTokens) 1000) pInput;
          perSumOutput = js_mul (js_div summarySize 1000) pOutput;
          sumCall = js_mul (js_mul (of_int students) (of_int (numSummarizations sim)))
            (js_add perSumInput perSumOutput);
          tot = js_add mainCall sumCall;
          savings = js_sub windowCostTotal tot;
          savingsPct = (if 0 < windowCostTotal
                        then js_mul (js_div savings windowCostTotal) 100 else 0);
          denominator = js_mul summarySize (js_sub pInput pRead);
          bek = (if 0 < denominator
                 then Num (js_div
                   (js_mul (js_add cachedPrefix summarySize) (js_sub pWrite pRead))
                   denominator)
                 else Infinity);
          viable = js_ge (of_int (turnsPerCycle sim)) bek;
          cachingSavings =
            (if 0 < numSummarizations sim \<and> 0 < turnsPerCycle sim then
               (let K = of_int (turnsPerCycle sim);
                    perCycleFresh = js_add
                      (js_mul (js_mul K (js_div cachedPrefix 1000)) pRead)
                      (js_mul (js_mul K (js_div summarySize 1000)) pInput);
                    perCycleCached = js_add
                      (js_mul (js_div (js_add cachedPrefix summarySize) 1000) pWrite)
                      (js_mul
                         (js_mul (js_sub K 1) (js_div (js_add cachedPrefix summarySize) 1000))
                         pRead)
                in js_mul (js_mul (of_int students) (of_int (numSummarizations sim)))
                     (js_sub perCycleFresh perCycleCached))
             else 0)
      in \<lparr>mainCallCost = mainCall, summarizationCallCost = sumCall, totalCost = tot,
          r_numSummarizations = numSummarizations sim,
          r_avgHistoryPerTurn = js_double (avgHistoryPerTurn sim),
          vsWindowSavings = savings, vsWindowSavingsPct = savingsPct,
          r_turnsPerCycle = turnsPerCycle sim, breakEvenK = bek,
          summaryCachingViable = viable, summaryCachingSavings = cachingSavings\<rparr>)"

section \<open>Summarization strategy compute functions\<close>

definition computeSumNoCaching ::
  "BedrockModel \<Rightarrow> int \<Rightarrow> int \<Rightarrow> real \<Rightarrow> real \<Rightarrow> real \<Rightarrow> real \<Rightarrow> real \<Rightarrow> real \<Rightarrow> real
    \<Rightarrow> SumStrategyBreakdown" where
  "computeSumNoCaching model students reqsPerStudent sysTokens ctxTokens subTokens instTokens
      outputTokens summarySize tierMultiplier =
     (let p = pricing model;
          pInput = input_1k p * tierMultiplier;
          pOutput = output_1k p * tierMultiplier;
          sim = simulateSummarization reqsPerStudent instTokens outputTokens summarySize;
          totalReqs = students * reqsPerStudent;
          fixedPerReq = sysTokens + ctxTokens + subTokens;
          fi = of_int totalReqs * (fixedPerReq / 1000) * pInput
            + of_int students * (totalHistoryTokensSent sim / 1000) * pInput;
          out = of_int totalReqs * (outputTokens / 1000) * pOutput;
          perSumInput = (sysTokens + instTokens) / 1000 * pInput;
          perSumOutput = (summarySize / 1000) * pOutput;
          sc = of_int students * of_int (numSummarizations sim) * (perSumInput + perSumOutput)
      in \<lparr>cacheWrite = 0, cacheRead = 0, freshInput = fi, output' = out, guardrails = 0,
          total = fi + out + sc, summarizationCalls = sc\<rparr>)"

definition computeSumCacheAssessment ::
  "BedrockModel \<Rightarrow> int \<Rightarrow> int \<Rightarrow> real \<Rightarrow> real \<Rightarrow> real \<Rightarrow> real \<Rightarrow> real \<Rightarrow> real \<Rightarrow> real
    \<Rightarrow> CacheTTL \<Rightarrow> SumStrategyBreakdown" where
  "computeSumCacheAssessment model students reqsPerStudent sysTokens ctxTokens subTokens
      instTokens outputTokens summarySize tierMultiplier cacheTTL =
     (let p = pricing model;
          pInput = input_1k p * tierMultiplier;
          pOutput = output_1k p * tierMultiplier;
          pWrite = getCacheWritePrice model cacheTTL * tierMultiplier;
          pRead = nullish (cache_read_1k p) 0 * tierMultiplier;
          sim = simulateSummarization reqsPerStudent instTokens outputTokens summarySize;
          cachedPrefix = sysTokens + ctxTokens;
          totalReqs = students * reqsPerStudent;
          cw = (cachedPrefix / 1000) * pWrite;
          cr = (of_int totalReqs - 1) * (cachedPrefix / 1000) * pRead;
          fi = of_int students * (totalHistoryTokensSent sim / 1000) * pInput
            + of_int totalReqs * (subTokens / 1000) * pInput;
          out = of_int totalReqs * (outputTokens / 1000) * pOutput;
          perSumInput = (sysTokens + instTokens) / 1000 * pInput;
          perSumOutput = (summarySize / 1000) * pOutput;
          sc = of_int students * of_int (numSummarizations sim) * (perSumInput + perSumOutput)
      in \<lparr>cacheWrite = cw, cacheRead = cr, freshInput = fi, output' = out, guardrails = 0,
          total = cw + cr + fi + out + sc, summarizationCalls = sc\<rparr>)"

text \<open>
  The loop of \<open>computeSumCacheSummary\<close> over the turns of one student. Its state is the
  three accumulators and the flag \<open>hasSummary\<close>. \<open>js_index\<close> is an array read, which is
  \<open>undefined\<close> out of range; \<open>sumTurns.has\<close> is membership in the set of the event turns.
\<close>

definition js_index :: "'a list \<Rightarrow> int \<Rightarrow> 'a option" where
  "js_index xs i = (if 0 \<le> i \<and> nat i < length xs then Some (xs ! nat i) else None)"

record SumLoop =
  perStudentCacheWrite :: real
  perStudentCacheRead :: real
  perStudentFreshInput :: real
  hasSummary :: bool

function sumLoop ::
  "int \<Rightarrow> int \<Rightarrow> SummarizationSim \<Rightarrow> real \<Rightarrow> real \<Rightarrow> real \<Rightarrow> real \<Rightarrow> real \<Rightarrow> real \<Rightarrow> real
    \<Rightarrow> SumLoop \<Rightarrow> SumLoop" where
  "sumLoop t reqsPerStudent sim assessmentPrefix fullPrefix subTokens summarySize pInput pWrite
      pRead s =
     (if t \<le> reqsPerStudent then
        (let history = nullish (js_index (historyPerTurn sim) (t - 1)) 0;
             hs = (if 1 < t \<and> t - 1 \<in> set (summarizationTurns sim) then True
                   else hasSummary s);
             prefix = (if hs then fullPrefix else assessmentPrefix);
             s1 = (if t = 1 \<or> (hs \<and> t - 1 \<in> set (summarizationTurns sim))
                   then s\<lparr>perStudentCacheWrite :=
                     perStudentCacheWrite s + (prefix / 1000) * pWrite\<rparr>
                   else s\<lparr>perStudentCacheRead :=
                     perStudentCacheRead s + (prefix / 1000) * pRead\<rparr>);
             freshHistory = (if hs then max 0 (history - summarySize) else history);
             s2 = s1\<lparr>perStudentFreshInput :=
                      perStudentFreshInput s1 + ((subTokens + freshHistory) / 1000) * pInput,
                    hasSummary := hs\<rparr>
         in sumLoop (t + 1) reqsPerStudent sim assessmentPrefix fullPrefix subTokens
              summarySize pInput pWrite pRead s2)
      else s)"
  by pat_completeness auto
termination
  by (relation "measure (\<lambda>(t, n, _). nat (n + 1 - t))") auto

declare sumLoop.simps [simp del]

definition computeSumCacheSummary ::
  "BedrockModel \<Rightarrow> int \<Rightarrow> int \<Rightarrow> real \<Rightarrow> real \<Rightarrow> real \<Rightarrow> real \<Rightarrow> real \<Rightarrow> real \<Rightarrow> real
    \<Rightarrow> CacheTTL \<Rightarrow> SumStrategyBreakdown" where
  "computeSumCacheSummary model students reqsPerStudent sysTokens ctxTokens subTokens
      instTokens outputTokens summarySize tierMultiplier cacheTTL =
     (let p = pricing model;
          pInput = input_1k p * tierMultiplier;
          pOutput = output_1k p * tierMultiplier;
          pWrite = getCacheWritePrice model cacheTTL * tierMultiplier;
          pRead = nullish (cache_read_1k p) 0 * tierMultiplier;
          sim = simulateSummarization reqsPerStudent instTokens outputTokens summarySize;
          assessmentPrefix = sysTokens + ctxTokens;
          fullPrefix = assessmentPrefix + summarySize;
          totalReqs = students * reqsPerStudent;
          s = sumLoop 1 reqsPerStudent sim assessmentPrefix fullPrefix subTokens summarySize
                pInput pWrite pRead
                \<lparr>perStudentCacheWrite = 0, perStudentCacheRead = 0,
                 perStudentFreshInput = 0, hasSummary = False\<rparr>;
          sharedPrefixWriteCorrection =
            (if 1 < students then (of_int students - 1) * (assessmentPrefix / 1000) * pWrite
             else 0);
          sharedPrefixReadCorrection =
            (if 1 < students then (of_int students - 1) * (assessmentPrefix / 1000) * pRead
             else 0);
          cw = of_int students * perStudentCacheWrite s - sharedPrefixWriteCorrection;
          cr = of_int students * perStudentCacheRead s + sharedPrefixReadCorrection;
          fi = of_int students * perStudentFreshInput s;
          out = of_int totalReqs * (outputTokens / 1000) * pOutput;
          perSumInput = (sysTokens + instTokens) / 1000 * pInput;
          perSumOutput = (summarySize / 1000) * pOutput;
          sc = of_int students * of_int (numSummarizations sim) * (perSumInput + perSumOutput)
      in \<lparr>cacheWrite = cw, cacheRead = cr, freshInput = fi, output' = out, guardrails = 0,
          total = cw + cr + fi + out + sc, summarizationCalls = sc\<rparr>)"

definition computeGuardrailsCost :: "int \<Rightarrow> real \<Rightarrow> real \<Rightarrow> real" where
  "computeGuardrailsCost totalRequests studentInputTokensPerRequest outputTokensPerRequest =
     (let evaluatedChars =
            (studentInputTokensPerRequest + outputTokensPerRequest) * CHARS_PER_TOKEN;
          textUnits = evaluatedChars / 1000
      in of_int totalRequests * (textUnits / 1000) * GUARDRAILS_COST_PER_1K_UNITS)"

section \<open>The component: workload-simulator.tsx\<close>

text \<open>
  The memoised values of the component are functions of the values in their dependency
  lists. \<open>SimulatorState\<close> holds those values: the seven workload inputs (integers: the
  inputs are parsed with \<open>parseInt\<close> or rounded), the selected model, and the flags derived
  from the model and the template.
\<close>

record SimulatorState =
  st_supportsCaching :: bool
  st_sensitivityParam :: SensitivityParamKey
  st_selectedModel :: BedrockModel
  st_students :: int
  st_reqsPerStudent :: int
  st_sysTokens :: int
  st_ctxTokens :: int
  st_subTokens :: int
  st_instTokens :: int
  st_outputTokens :: int
  st_tierMultiplier :: real
  st_effectiveCacheTTL :: CacheTTL
  st_guardrailsEnabled :: bool
  st_submissionCacheable :: bool
  st_batchIncluded :: bool
  st_isConversational :: bool
  st_isProgressiveSubmission :: bool
  st_displayMode :: DisplayMode
  st_summarizationEnabled :: bool
  st_summarySize :: int

subsection \<open>The memo \<open>results\<close>\<close>

text \<open>
  The two statements \<open>b.guardrails = guardrailsCost; b.total += guardrailsCost\<close> that the
  component runs on a breakdown it got from a compute function.
\<close>

definition addGuardrails :: "CostBreakdown \<Rightarrow> real \<Rightarrow> CostBreakdown" where
  "addGuardrails b guardrailsCost =
     b\<lparr>guardrails := guardrailsCost, total := total b + guardrailsCost\<rparr>"

record Results =
  res_noCaching :: CostBreakdown
  res_strategyA :: "CostBreakdown option"
  res_strategyB :: "CostBreakdown option"
  res_batch :: "CostBreakdown option"

definition results :: "SimulatorState \<Rightarrow> Results" where
  "results st =
     (let totalRequests = st_students st * st_reqsPerStudent st;
          effectiveInstTokens = getEffectiveInstTokens (of_int (st_instTokens st))
            (st_reqsPerStudent st) (of_int (st_outputTokens st)) (st_isConversational st);
          effectiveSubTokens = getEffectiveSubTokens (of_int (st_subTokens st))
            (st_reqsPerStudent st) (st_isProgressiveSubmission st);
          guardrailsCost =
            (if st_guardrailsEnabled st
             then computeGuardrailsCost totalRequests effectiveSubTokens
               (of_int (st_outputTokens st))
             else 0);
          noCaching = addGuardrails
            (computeNoCaching (st_selectedModel st) (st_students st) (st_reqsPerStudent st)
               (of_int (st_sysTokens st)) (of_int (st_ctxTokens st)) effectiveSubTokens
               effectiveInstTokens (of_int (st_outputTokens st)) (st_tierMultiplier st))
            guardrailsCost;
          batch =
            (if st_batchIncluded st
             then Some (addGuardrails
               (computeBatch (st_selectedModel st) (st_students st) (st_reqsPerStudent st)
                  (of_int (st_sysTokens st)) (of_int (st_ctxTokens st)) effectiveSubTokens
                  effectiveInstTokens (of_int (st_outputTokens st)) (st_tierMultiplier st))
               guardrailsCost)
             else None)
      in if \<not> st_supportsCaching st then
           \<lparr>res_noCaching = noCaching, res_strategyA = None, res_strategyB = None,
            res_batch = batch\<rparr>
         else
           (let strategyA = addGuardrails
                  (computeStrategyA (st_selectedModel st) (st_students st)
                     (st_reqsPerStudent st) (of_int (st_sysTokens st))
                     (of_int (st_ctxTokens st)) effectiveSubTokens effectiveInstTokens
                     (of_int (st_outputTokens st)) (st_tierMultiplier st)
                     (st_effectiveCacheTTL st))
                  guardrailsCost;
                strategyB = addGuardrails
                  (computeStrategyB (st_selectedModel st) (st_students st)
                     (st_reqsPerStudent st) (of_int (st_sysTokens st))
                     (of_int (st_ctxTokens st)) effectiveSubTokens effectiveInstTokens
                     (of_int (st_outputTokens st)) (st_tierMultiplier st)
                     (st_submissionCacheable st) (st_effectiveCacheTTL st))
                  guardrailsCost
            in \<lparr>res_noCaching = noCaching, res_strategyA = Some strategyA,
                res_strategyB = Some strategyB, res_batch = batch\<rparr>))"

subsection \<open>The memo \<open>paramSensitivityData\<close>: the raw points\<close>

text \<open>
  The keys under which a point stores the strategies' totals. In the source they are the
  strings "No Caching", "Per-Assignment Cache", "Per-Submission Cache",
  "Batch Inference", "Chat Sum. - No Cache", "Chat Sum. - Cache Prefix" and
  "Chat Sum. - Cache in Prefix".
\<close>

datatype StrategyKey =
  NoCaching | PerAssignmentCache | PerSubmissionCache | BatchInference
  | ChatSumNoCache | ChatSumCachePrefix | ChatSumCacheInPrefix

fun STRATEGY_TIEBREAK :: "StrategyKey \<Rightarrow> nat" where
  "STRATEGY_TIEBREAK PerAssignmentCache = 0"
| "STRATEGY_TIEBREAK ChatSumCacheInPrefix = 0"
| "STRATEGY_TIEBREAK PerSubmissionCache = 1"
| "STRATEGY_TIEBREAK ChatSumCachePrefix = 1"
| "STRATEGY_TIEBREAK BatchInference = 2"
| "STRATEGY_TIEBREAK NoCaching = 3"
| "STRATEGY_TIEBREAK ChatSumNoCache = 3"

text \<open>\<open>colorMap[costs[0]?.[0] ?? ""] ?? "#999"\<close>, with the values of \<open>CHART_COLORS\<close>.\<close>

fun colorMap :: "StrategyKey option \<Rightarrow> string" where
  "colorMap (Some NoCaching) = ''#f97316''"
| "colorMap (Some PerAssignmentCache) = ''#3b82f6''"
| "colorMap (Some PerSubmissionCache) = ''#10b981''"
| "colorMap (Some BatchInference) = ''#a855f7''"
| "colorMap (Some ChatSumNoCache) = ''#f97316''"
| "colorMap (Some ChatSumCachePrefix) = ''#3b82f6''"
| "colorMap (Some ChatSumCacheInPrefix) = ''#a855f7''"
| "colorMap None = ''#999''"

text \<open>
  A point of the sweep: the object built for one sample value. \<open>cost\<close> is its part
  keyed by strategy (absent keys are \<open>None\<close>); \<open>winner\<close> is \<open>None\<close> for the empty string.
  The display label of the point is a formatted copy of \<open>pvalue\<close> and is left out.
\<close>

record SweepPoint =
  pvalue :: int
  isCurrent :: bool
  cost :: "StrategyKey \<Rightarrow> real option"
  winner :: "StrategyKey option"
  winnerColor :: string

text \<open>
  \<open>Array.prototype.sort\<close> with a comparator is a stable sort: insertion from the right,
  an element going before the first one it does not compare greater than.
\<close>

fun insort_cmp :: "('a \<Rightarrow> 'a \<Rightarrow> real) \<Rightarrow> 'a \<Rightarrow> 'a list \<Rightarrow> 'a list" where
  "insort_cmp cmp x [] = [x]"
| "insort_cmp cmp x (y # ys) =
     (if cmp x y \<le> 0 then x # y # ys else y # insort_cmp cmp x ys)"

definition js_sort :: "('a \<Rightarrow> 'a \<Rightarrow> real) \<Rightarrow> 'a list \<Rightarrow> 'a list" where
  "js_sort cmp xs = foldr (insort_cmp cmp) xs []"

text \<open>\<open>(a, b) => a[1] - b[1] || (STRATEGY_TIEBREAK[a[0]] ?? 99) - (STRATEGY_TIEBREAK[b[0]] ?? 99)\<close>\<close>

definition costCompare :: "StrategyKey \<times> real \<Rightarrow> StrategyKey \<times> real \<Rightarrow> real" where
  "costCompare a b =
     (if snd a - snd b \<noteq> 0 then snd a - snd b
      else real (STRATEGY_TIEBREAK (fst a)) - real (STRATEGY_TIEBREAK (fst b)))"

text \<open>The entries \<open>[k, point[k]]\<close> of the keys that the point has, in the order of the keys.\<close>

definition entriesOf :: "(StrategyKey \<Rightarrow> real option) \<Rightarrow> StrategyKey list
    \<Rightarrow> (StrategyKey \<times> real) list" where
  "entriesOf c keys = List.map_filter (\<lambda>k. map_option (\<lambda>v. (k, v)) (c k)) keys"

definition stabKeysOf :: "bool \<Rightarrow> StrategyKey list" where
  "stabKeysOf isSumMode =
     (if isSumMode then [ChatSumNoCache, ChatSumCachePrefix, ChatSumCacheInPrefix]
      else [NoCaching, PerAssignmentCache])"

text \<open>
  The end of the callback of \<open>samplePoints.map\<close>: from the totals stored in the point,
  the sorted list \<open>costs\<close>, the winner and its colour.
\<close>

definition finishPoint :: "bool \<Rightarrow> int \<Rightarrow> bool \<Rightarrow> (StrategyKey \<Rightarrow> real option) \<Rightarrow> SweepPoint"
  where
  "finishPoint isSumMode val cur c =
     (let costKeys = stabKeysOf isSumMode;
          costs = entriesOf c costKeys @ entriesOf c [PerSubmissionCache]
            @ entriesOf c [BatchInference];
          sorted = js_sort costCompare costs;
          w = (case sorted of [] \<Rightarrow> None | e # _ \<Rightarrow> Some (fst e))
      in \<lparr>pvalue = val, isCurrent = cur, cost = c, winner = w, winnerColor = colorMap w\<rparr>)"

record SweepArgs =
  a_students :: int
  a_reqsPerStudent :: int
  a_sysTokens :: int
  a_ctxTokens :: int
  a_subTokens :: int
  a_instTokens :: int
  a_outputTokens :: int

definition currentValueOf :: "SimulatorState \<Rightarrow> int" where
  "currentValueOf st =
     (case st_sensitivityParam st of
        K_students \<Rightarrow> st_students st
      | K_reqsPerStudent \<Rightarrow> st_reqsPerStudent st
      | K_sysTokens \<Rightarrow> st_sysTokens st
      | K_ctxTokens \<Rightarrow> st_ctxTokens st
      | K_subTokens \<Rightarrow> st_subTokens st
      | K_instTokens \<Rightarrow> st_instTokens st
      | K_outputTokens \<Rightarrow> st_outputTokens st)"

text \<open>\<open>{students, ..., outputTokens, [sensitivityParam]: val}\<close>\<close>

definition argsAt :: "SimulatorState \<Rightarrow> int \<Rightarrow> SweepArgs" where
  "argsAt st val =
     (let a = \<lparr>a_students = st_students st, a_reqsPerStudent = st_reqsPerStudent st,
               a_sysTokens = st_sysTokens st, a_ctxTokens = st_ctxTokens st,
               a_subTokens = st_subTokens st, a_instTokens = st_instTokens st,
               a_outputTokens = st_outputTokens st\<rparr>
      in case st_sensitivityParam st of
           K_students \<Rightarrow> a\<lparr>a_students := val\<rparr>
         | K_reqsPerStudent \<Rightarrow> a\<lparr>a_reqsPerStudent := val\<rparr>
         | K_sysTokens \<Rightarrow> a\<lparr>a_sysTokens := val\<rparr>
         | K_ctxTokens \<Rightarrow> a\<lparr>a_ctxTokens := val\<rparr>
         | K_subTokens \<Rightarrow> a\<lparr>a_subTokens := val\<rparr>
         | K_instTokens \<Rightarrow> a\<lparr>a_instTokens := val\<rparr>
         | K_outputTokens \<Rightarrow> a\<lparr>a_outputTokens := val\<rparr>)"

text \<open>
  The totals that the callback stores in the point for the sample value \<open>val\<close>: each is
  the \<open>total\<close> of a breakdown plus the guardrails cost \<open>gr\<close> of that point.
\<close>

definition pointCosts :: "SimulatorState \<Rightarrow> int \<Rightarrow> StrategyKey \<Rightarrow> real option" where
  "pointCosts st val =
     (let args = argsAt st val;
          model = st_selectedModel st;
          tierMultiplier = st_tierMultiplier st;
          effectiveCacheTTL = st_effectiveCacheTTL st;
          summarySize = of_int (st_summarySize st);
          effInst = getEffectiveInstTokens (of_int (a_instTokens args)) (a_reqsPerStudent args)
            (of_int (a_outputTokens args)) (st_isConversational st);
          effSub = getEffectiveSubTokens (of_int (a_subTokens args)) (a_reqsPerStudent args)
            (st_isProgressiveSubmission st);
          adjustedTotalReqs = a_students args * a_reqsPerStudent args;
          gr = (if st_guardrailsEnabled st
                then computeGuardrailsCost adjustedTotalReqs effSub
                  (of_int (a_outputTokens args))
                else 0);
          noCaching = computeNoCaching model (a_students args) (a_reqsPerStudent args)
            (of_int (a_sysTokens args)) (of_int (a_ctxTokens args)) effSub effInst
            (of_int (a_outputTokens args)) tierMultiplier;
          stratA = computeStrategyA model (a_students args) (a_reqsPerStudent args)
            (of_int (a_sysTokens args)) (of_int (a_ctxTokens args)) effSub effInst
            (of_int (a_outputTokens args)) tierMultiplier effectiveCacheTTL;
          isSumMode = st_summarizationEnabled st \<and> st_isConversational st;
          point1 =
            (if isSumMode then
               (let sumNone = computeSumNoCaching model (a_students args)
                      (a_reqsPerStudent args) (of_int (a_sysTokens args))
                      (of_int (a_ctxTokens args)) effSub (of_int (a_instTokens args))
                      (of_int (a_outputTokens args)) summarySize tierMultiplier;
                    sumPrefix = computeSumCacheAssessment model (a_students args)
                      (a_reqsPerStudent args) (of_int (a_sysTokens args))
                      (of_int (a_ctxTokens args)) effSub (of_int (a_instTokens args))
                      (of_int (a_outputTokens args)) summarySize tierMultiplier
                      effectiveCacheTTL;
                    sumFull = computeSumCacheSummary model (a_students args)
                      (a_reqsPerStudent args) (of_int (a_sysTokens args))
                      (of_int (a_ctxTokens args)) effSub (of_int (a_instTokens args))
                      (of_int (a_outputTokens args)) summarySize tierMultiplier
                      effectiveCacheTTL
                in (\<lambda>k. None)(ChatSumNoCache \<mapsto> total sumNone + gr,
                     ChatSumCachePrefix \<mapsto> total sumPrefix + gr,
                     ChatSumCacheInPrefix \<mapsto> total sumFull + gr))
             else (\<lambda>k. None)(NoCaching \<mapsto> total noCaching + gr,
                    PerAssignmentCache \<mapsto> total stratA + gr));
          point2 =
            (if st_displayMode st = strategy_comparison then
               (let stratB = computeStrategyB model (a_students args) (a_reqsPerStudent args)
                      (of_int (a_sysTokens args)) (of_int (a_ctxTokens args)) effSub effInst
                      (of_int (a_outputTokens args)) tierMultiplier
                      (st_submissionCacheable st) effectiveCacheTTL;
                    p = point1(PerSubmissionCache \<mapsto> total stratB + gr)
                in if st_batchIncluded st then
                     (let batch = computeBatch model (a_students args) (a_reqsPerStudent args)
                            (of_int (a_sysTokens args)) (of_int (a_ctxTokens args)) effSub
                            effInst (of_int (a_outputTokens args)) tierMultiplier
                      in p(BatchInference \<mapsto> total batch + gr))
                   else p)
             else point1)
      in point2)"

definition rawPoint :: "SimulatorState \<Rightarrow> int \<Rightarrow> SweepPoint" where
  "rawPoint st val =
     finishPoint (st_summarizationEnabled st \<and> st_isConversational st) val
       (val = currentValueOf st) (pointCosts st val)"

text \<open>
  The grid: forty rounded values from the first to the last entry of the parameter's
  sample range, and the current value of the parameter, pushed and sorted in when the
  grid does not include it.
\<close>

definition samplePoints :: "SimulatorState \<Rightarrow> int list" where
  "samplePoints st =
     (let range = SENSITIVITY_SAMPLE_POINTS (st_sensitivityParam st);
          mn = hd range;
          mx = last range;
          numPoints = 40;
          step = (of_int mx - of_int mn) / (of_nat numPoints - 1);
          pts = map (\<lambda>i. Math_round (of_int mn + step * of_nat i)) [0..<numPoints];
          currentValue = currentValueOf st
      in if currentValue \<notin> set pts then sort (pts @ [currentValue]) else pts)"

definition rawDataOf :: "SimulatorState \<Rightarrow> SweepPoint list" where
  "rawDataOf st = map (rawPoint st) (samplePoints st)"

subsection \<open>The memo \<open>paramSensitivityData\<close>: the stabilization pass\<close>

definition allKeys :: "StrategyKey list \<Rightarrow> SweepPoint \<Rightarrow> StrategyKey list" where
  "allKeys stabKeys pt =
     stabKeys @ (if cost pt PerSubmissionCache \<noteq> None then [PerSubmissionCache] else [])
       @ (if cost pt BatchInference \<noteq> None then [BatchInference] else [])"

text \<open>\<open>keys.filter(k => p[k] != null).map(k => p[k]).sort((a, b) => a - b)\<close>\<close>

definition sortedCosts :: "StrategyKey list \<Rightarrow> SweepPoint \<Rightarrow> real list" where
  "sortedCosts keys p = sort (List.map_filter (cost p) keys)"

text \<open>
  The test of both loops: at least two totals, and the two smallest less than 0.005
  apart. (With fewer than two totals the outer loop's \<open>gap\<close> is \<open>Infinity\<close> and the inner
  loop breaks.)
\<close>

definition nearTie :: "StrategyKey list \<Rightarrow> SweepPoint \<Rightarrow> bool" where
  "nearTie keys p =
     (let s = sortedCosts keys p in 2 \<le> length s \<and> s ! 1 - s ! 0 < 0.005)"

text \<open>The inner \<open>while\<close>: \<open>rj\<close> advances while it is in range and the point is a near-tie.\<close>

function scanRun :: "StrategyKey list \<Rightarrow> SweepPoint list \<Rightarrow> nat \<Rightarrow> nat" where
  "scanRun keys rawData rj =
     (if rj < length rawData then
        (if \<not> nearTie keys (rawData ! rj) then rj else scanRun keys rawData (rj + 1))
      else rj)"
  by pat_completeness auto
termination
  by (relation "measure (\<lambda>(keys, rawData, rj). length rawData - rj)") auto

declare scanRun.simps [simp del]

text \<open>
  The \<open>for\<close> loop over \<open>k\<close> from \<open>ri\<close> below \<open>rj\<close>. \<open>resolved\<close> is a reference to the
  element at index \<open>res\<close>, so each iteration reads the array as it then is.
\<close>

function assignRun :: "nat \<Rightarrow> nat \<Rightarrow> nat \<Rightarrow> SweepPoint list \<Rightarrow> SweepPoint list" where
  "assignRun k rj res rawData =
     (if k < rj then
        assignRun (k + 1) rj res
          (rawData[k := (rawData ! k)\<lparr>winner := winner (rawData ! res),
                                     winnerColor := winnerColor (rawData ! res)\<rparr>])
      else rawData)"
  by pat_completeness auto
termination
  by (relation "measure (\<lambda>(k, rj, _). rj - k)") auto

declare assignRun.simps [simp del]

lemma length_assignRun: "length (assignRun k rj res rawData) = length rawData"
  by (induction k rj res rawData rule: assignRun.induct) (subst assignRun.simps, simp)

lemma scanRun_ge: "rj \<le> scanRun keys rawData rj"
proof (induction keys rawData rj rule: scanRun.induct)
  case (1 keys rawData rj)
  show ?case
  proof (cases "rj < length rawData \<and> nearTie keys (rawData ! rj)")
    case True
    then have "rj + 1 \<le> scanRun keys rawData (rj + 1)"
      using "1.IH" by simp
    then show ?thesis
      using True by (subst scanRun.simps) simp
  next
    case False
    then show ?thesis
      by (subst scanRun.simps) auto
  qed
qed

text \<open>The outer \<open>while\<close> over \<open>ri\<close>.\<close>

function stabLoop :: "StrategyKey list \<Rightarrow> nat \<Rightarrow> SweepPoint list \<Rightarrow> SweepPoint list" where
  "stabLoop stabKeys ri rawData =
     (if ri < length rawData then
        (let pt = rawData ! ri;
             keys = allKeys stabKeys pt
         in if nearTie keys pt then
              (let rj = scanRun keys rawData (ri + 1);
                   res = (if rj < length rawData then rj else length rawData - 1)
               in stabLoop stabKeys rj (assignRun ri rj res rawData))
            else stabLoop stabKeys (ri + 1) rawData)
      else rawData)"
  by pat_completeness auto
termination
proof (relation "measure (\<lambda>(stabKeys, ri, rawData). length rawData - ri)", goal_cases)
  case 1
  show ?case by simp
next
  case (2 stabKeys ri rawData pt keys rj res)
  have "ri + 1 \<le> rj"
    using scanRun_ge [of "ri + 1" keys rawData] 2 by simp
  then show ?case
    using 2 by (simp add: length_assignRun)
next
  case 3
  then show ?case by simp
qed

declare stabLoop.simps [simp del]

definition paramSensitivityData :: "SimulatorState \<Rightarrow> SweepPoint list" where
  "paramSensitivityData st =
     (if \<not> st_supportsCaching st then []
      else stabLoop (stabKeysOf (st_summarizationEnabled st \<and> st_isConversational st)) 0
             (rawDataOf st))"

section \<open>Auxiliary definitions for the statements\<close>

text \<open>The sum of the five components of a breakdown.\<close>

definition componentSum :: "'a CostBreakdown_scheme \<Rightarrow> real" where
  "componentSum b = cacheWrite b + cacheRead b + freshInput b + output' b + guardrails b"

text \<open>
  A price list in the style of the Anthropic models: input 0.003 and output 0.015 per
  thousand tokens, cache writes at 1.25 times and cache reads at 0.1 times the input price.
\<close>

definition anthropicLike :: BedrockModel where
  "anthropicLike =
     \<lparr>pricing = \<lparr>input_1k = 0.003, output_1k = 0.015,
        cache_write_1k = Some (1.25 * 0.003), cache_write_1hour_1k = None,
        cache_read_1k = Some (0.1 * 0.003), batch_input_1k = None,
        batch_output_1k = None\<rparr>\<rparr>"

text \<open>The state of the component for the template "graf-simple", guardrails switched on.\<close>

definition grafSimple :: SimulatorState where
  "grafSimple =
     \<lparr>st_supportsCaching = True, st_sensitivityParam = K_ctxTokens,
      st_selectedModel = anthropicLike, st_students = 30, st_reqsPerStudent = 5,
      st_sysTokens = 1000, st_ctxTokens = 500, st_subTokens = 2000, st_instTokens = 200,
      st_outputTokens = 500, st_tierMultiplier = 1, st_effectiveCacheTTL = TTL_5min,
      st_guardrailsEnabled = True, st_submissionCacheable = True, st_batchIncluded = False,
      st_isConversational = False, st_isProgressiveSubmission = False,
      st_displayMode = strategy_comparison, st_summarizationEnabled = False,
      st_summarySize = 500\<rparr>"

text \<open>
  One turn of the loop of \<open>simulateSummarization\<close> (the body of \<open>simLoop\<close>), and the
  state in which the loop starts.
\<close>

definition simStep :: "int \<Rightarrow> int \<Rightarrow> real \<Rightarrow> int \<Rightarrow> real \<Rightarrow> SimLoop \<Rightarrow> SimLoop" where
  "simStep t n cap tpe sz s =
     (let s1 = s\<lparr>l_historyPerTurn := l_historyPerTurn s @ [l_history s],
                  l_total := l_total s + l_history s,
                  l_history := l_history s + of_int tpe\<rparr>
      in if cap \<le> l_history s1 \<and> t < n
         then s1\<lparr>l_summarizationTurns := l_summarizationTurns s1 @ [t], l_history := sz\<rparr>
         else s1)"

definition sim0 :: SimLoop where
  "sim0 = \<lparr>l_historyPerTurn = [], l_summarizationTurns = [], l_history = 0, l_total = 0\<rparr>"

text \<open>Price lists without a negative price, and breakdowns without a negative field.\<close>

definition nonnegPrices :: "BedrockModel \<Rightarrow> bool" where
  "nonnegPrices m =
     (let p = pricing m in
      0 \<le> input_1k p \<and> 0 \<le> output_1k p \<and> 0 \<le> nullish (cache_write_1k p) 0
      \<and> 0 \<le> nullish (cache_write_1hour_1k p) 0 \<and> 0 \<le> nullish (cache_read_1k p) 0
      \<and> 0 \<le> nullish (batch_input_1k p) 0 \<and> 0 \<le> nullish (batch_output_1k p) 0)"

definition nonnegBreakdown :: "'a CostBreakdown_scheme \<Rightarrow> bool" where
  "nonnegBreakdown b =
     (0 \<le> cacheWrite b \<and> 0 \<le> cacheRead b \<and> 0 \<le> freshInput b \<and> 0 \<le> output' b
      \<and> 0 \<le> guardrails b \<and> 0 \<le> total b)"

text \<open>
  One turn of the loop of \<open>computeSumCacheSummary\<close> (the body of \<open>sumLoop\<close>), and the
  state in which the loop starts.
\<close>

definition sumStep ::
  "int \<Rightarrow> SummarizationSim \<Rightarrow> real \<Rightarrow> real \<Rightarrow> real \<Rightarrow> real \<Rightarrow> real \<Rightarrow> real \<Rightarrow> real
    \<Rightarrow> SumLoop \<Rightarrow> SumLoop" where
  "sumStep t sim assessmentPrefix fullPrefix subTokens summarySize pInput pWrite pRead s =
     (let history = nullish (js_index (historyPerTurn sim) (t - 1)) 0;
          hs = (if 1 < t \<and> t - 1 \<in> set (summarizationTurns sim) then True
                else hasSummary s);
          prefix = (if hs then fullPrefix else assessmentPrefix);
          s1 = (if t = 1 \<or> (hs \<and> t - 1 \<in> set (summarizationTurns sim))
                then s\<lparr>perStudentCacheWrite :=
                  perStudentCacheWrite s + (prefix / 1000) * pWrite\<rparr>
                else s\<lparr>perStudentCacheRead :=
                  perStudentCacheRead s + (prefix / 1000) * pRead\<rparr>);
          freshHistory = (if hs then max 0 (history - summarySize) else history)
      in s1\<lparr>perStudentFreshInput :=
               perStudentFreshInput s1 + ((subTokens + freshHistory) / 1000) * pInput,
             hasSummary := hs\<rparr>)"

definition sum0 :: SumLoop where
  "sum0 = \<lparr>perStudentCacheWrite = 0, perStudentCacheRead = 0, perStudentFreshInput = 0,
     hasSummary = False\<rparr>"

text \<open>
  What the stabilization pass started at index \<open>ri\<close> makes of the points \<open>d\<close>, for the
  key list \<open>K\<close>: the points keep their values and totals; a point before \<open>ri\<close> or outside
  the near-ties is unchanged; a point in a run of near-ties that ends before \<open>j\<close> has the
  winner and the colour that \<open>d\<close> has at \<open>j\<close>, or at the last index when the run reaches the
  end.
\<close>

definition stabilized ::
  "StrategyKey list \<Rightarrow> nat \<Rightarrow> SweepPoint list \<Rightarrow> SweepPoint list \<Rightarrow> bool" where
  "stabilized K ri d out =
     (length out = length d
      \<and> (\<forall>l<length d. cost (out ! l) = cost (d ! l) \<and> pvalue (out ! l) = pvalue (d ! l)
            \<and> isCurrent (out ! l) = isCurrent (d ! l))
      \<and> (\<forall>l<length d. l < ri \<or> \<not> nearTie K (d ! l) \<longrightarrow> out ! l = d ! l)
      \<and> (\<forall>l j. ri \<le> l \<and> l < j \<and> j \<le> length d
            \<and> (\<forall>m. l \<le> m \<and> m < j \<longrightarrow> nearTie K (d ! m))
            \<and> (j < length d \<longrightarrow> \<not> nearTie K (d ! j))
          \<longrightarrow> winner (out ! l) = winner (d ! (if j < length d then j else length d - 1))
            \<and> winnerColor (out ! l)
              = winnerColor (d ! (if j < length d then j else length d - 1))))"

text \<open>
  The keys under which every point of a sweep stores a total: the two or three keys of
  the mode, and the keys of the submission cache and of batch inference when the
  component computes them.
\<close>

definition sweepKeys :: "SimulatorState \<Rightarrow> StrategyKey list" where
  "sweepKeys st =
     stabKeysOf (st_summarizationEnabled st \<and> st_isConversational st)
       @ (if st_displayMode st = strategy_comparison then [PerSubmissionCache] else [])
       @ (if st_displayMode st = strategy_comparison \<and> st_batchIncluded st
          then [BatchInference] else [])"

text \<open>
  Points as the component builds them for the two strategies "No Caching" and
  "Per-Assignment Cache", and two lists of three consecutive points: the costs
  [10.001, 9.999], [10, 10], [12, 8], and the same with the first pair swapped, where the
  first point on its own is won by the other strategy.
\<close>

definition mkPoint :: "int \<Rightarrow> real \<Rightarrow> real \<Rightarrow> SweepPoint" where
  "mkPoint v c1 c2 =
     finishPoint False v False ((\<lambda>k. None)(NoCaching \<mapsto> c1, PerAssignmentCache \<mapsto> c2))"

definition specExample :: "SweepPoint list" where
  "specExample = [mkPoint 1 10.001 9.999, mkPoint 2 10 10, mkPoint 3 12 8]"

definition flipExample :: "SweepPoint list" where
  "flipExample = [mkPoint 1 9.999 10.001, mkPoint 2 10 10, mkPoint 3 12 8]"

text \<open>
  The guardrails cost as the memo \<open>results\<close> computes it, and as the callback of the
  sweep computes it for the sample value \<open>val\<close> (its local \<open>gr\<close>).
\<close>

definition resultsGuardrailsCost :: "SimulatorState \<Rightarrow> real" where
  "resultsGuardrailsCost st =
     (if st_guardrailsEnabled st
      then computeGuardrailsCost (st_students st * st_reqsPerStudent st)
        (getEffectiveSubTokens (of_int (st_subTokens st)) (st_reqsPerStudent st)
           (st_isProgressiveSubmission st))
        (of_int (st_outputTokens st))
      else 0)"

definition sweepGuardrails :: "SimulatorState \<Rightarrow> int \<Rightarrow> real" where
  "sweepGuardrails st val =
     (let args = argsAt st val in
      if st_guardrailsEnabled st
      then computeGuardrailsCost (a_students args * a_reqsPerStudent args)
        (getEffectiveSubTokens (of_int (a_subTokens args)) (a_reqsPerStudent args)
           (st_isProgressiveSubmission st))
        (of_int (a_outputTokens args))
      else 0)"

text \<open>
  Whether the callback of the sweep stores a total under the key \<open>k\<close>, and the total of
  the breakdown that it computes for that key at the sample value \<open>val\<close>.
\<close>

definition sweepHasKey :: "SimulatorState \<Rightarrow> StrategyKey \<Rightarrow> bool" where
  "sweepHasKey st k =
     (let isSumMode = st_summarizationEnabled st \<and> st_isConversational st in
      case k of
        NoCaching \<Rightarrow> \<not> isSumMode
      | PerAssignmentCache \<Rightarrow> \<not> isSumMode
      | PerSubmissionCache \<Rightarrow> st_displayMode st = strategy_comparison
      | BatchInference \<Rightarrow> st_displayMode st = strategy_comparison \<and> st_batchIncluded st
      | ChatSumNoCache \<Rightarrow> isSumMode
      | ChatSumCachePrefix \<Rightarrow> isSumMode
      | ChatSumCacheInPrefix \<Rightarrow> isSumMode)"

definition sweepBreakdownTotal :: "SimulatorState \<Rightarrow> int \<Rightarrow> StrategyKey \<Rightarrow> real" where
  "sweepBreakdownTotal st val k =
     (let args = argsAt st val;
          model = st_selectedModel st;
          tierMultiplier = st_tierMultiplier st;
          effectiveCacheTTL = st_effectiveCacheTTL st;
          summarySize = of_int (st_summarySize st);
          effInst = getEffectiveInstTokens (of_int (a_instTokens args)) (a_reqsPerStudent args)
            (of_int (a_outputTokens args)) (st_isConversational st);
          effSub = getEffectiveSubTokens (of_int (a_subTokens args)) (a_reqsPerStudent args)
            (st_isProgressiveSubmission st)
      in case k of
        NoCaching \<Rightarrow> total (computeNoCaching model (a_students args) (a_reqsPerStudent args)
            (of_int (a_sysTokens args)) (of_int (a_ctxTokens args)) effSub effInst
            (of_int (a_outputTokens args)) tierMultiplier)
      | PerAssignmentCache \<Rightarrow> total (computeStrategyA model (a_students args)
            (a_reqsPerStudent args) (of_int (a_sysTokens args)) (of_int (a_ctxTokens args))
            effSub effInst (of_int (a_outputTokens args)) tierMultiplier effectiveCacheTTL)
      | PerSubmissionCache \<Rightarrow> total (computeStrategyB model (a_students args)
            (a_reqsPerStudent args) (of_int (a_sysTokens args)) (of_int (a_ctxTokens args))
            effSub effInst (of_int (a_outputTokens args)) tierMultiplier
            (st_submissionCacheable st) effectiveCacheTTL)
      | BatchInference \<Rightarrow> total (computeBatch model (a_students args) (a_reqsPerStudent args)
            (of_int (a_sysTokens args)) (of_int (a_ctxTokens args)) effSub effInst
            (of_int (a_outputTokens args)) tierMultiplier)
      | ChatSumNoCache \<Rightarrow> total (computeSumNoCaching model (a_students args)
            (a_reqsPerStudent args) (of_int (a_sysTokens args)) (of_int (a_ctxTokens args))
            effSub (of_int (a_instTokens args)) (of_int (a_outputTokens args)) summarySize
            tierMultiplier)
      | ChatSumCachePrefix \<Rightarrow> total (computeSumCacheAssessment model (a_students args)
            (a_reqsPerStudent args) (of_int (a_sysTokens args)) (of_int (a_ctxTokens args))
            effSub (of_int (a_instTokens args)) (of_int (a_outputTokens args)) summarySize
            tierMultiplier effectiveCacheTTL)
      | ChatSumCacheInPrefix \<Rightarrow> total (computeSumCacheSummary model (a_students args)
            (a_reqsPerStudent args) (of_int (a_sysTokens args)) (of_int (a_ctxTokens args))
            effSub (of_int (a_instTokens args)) (of_int (a_outputTokens args)) summarySize
            tierMultiplier effectiveCacheTTL))"

section \<open>A run of the summarization simulation\<close>

text \<open>One turn of the loop, on a state written out.\<close>

lemma simLoop_step:
  "simLoop t n cap tpe sz
     \<lparr>l_historyPerTurn = h, l_summarizationTurns = e, l_history = x, l_total = tot\<rparr> =
   (if t \<le> n then
      (if cap \<le> x + of_int tpe \<and> t < n
       then simLoop (t + 1) n cap tpe sz
         \<lparr>l_historyPerTurn = h @ [x], l_summarizationTurns = e @ [t], l_history = sz,
          l_total = tot + x\<rparr>
       else simLoop (t + 1) n cap tpe sz
         \<lparr>l_historyPerTurn = h @ [x], l_summarizationTurns = e, l_history = x + of_int tpe,
          l_total = tot + x\<rparr>)
    else \<lparr>l_historyPerTurn = h, l_summarizationTurns = e, l_history = x, l_total = tot\<rparr>)"
  by (subst simLoop.simps) (simp add: Let_def)

lemmas sim_eval =
  simulateSummarization_def computeTokensPerExchange_def Math_round_def Let_def simLoop_step

lemma sim_5_500_1000_100:
  "simulateSummarization 5 500 1000 100 =
     \<lparr>historyPerTurn = [0, 100, 100, 100, 100], summarizationTurns = [1, 2, 3, 4],
      totalHistoryTokensSent = 400, avgHistoryPerTurn = 80, numSummarizations = 4,
      turnsPerCycle = 1\<rparr>"
  by (simp add: sim_eval)

section \<open>C1: the total of a breakdown\<close>

text \<open>
  C1 as stated fails: for the three summarization strategies the total also contains the
  cost of the summarization calls, which is no one of the five components. With thirty
  students, five turns and a history cap of 500 tokens there are four summarization events
  per student, and the total of \<open>computeSumNoCaching\<close> exceeds the component sum.
\<close>

theorem C1_counterexample:
  "total (computeSumNoCaching anthropicLike 30 5 1000 15000 2000 500 1000 100 1)
     \<noteq> componentSum (computeSumNoCaching anthropicLike 30 5 1000 15000 2000 500 1000 100 1)"
  by (simp add: computeSumNoCaching_def sim_5_500_1000_100 componentSum_def anthropicLike_def
      Let_def)

text \<open>
  C1 (amended): for \<open>computeNoCaching\<close>, \<open>computeStrategyA\<close>, \<open>computeStrategyB\<close> and
  \<open>computeBatch\<close>, and all inputs, the total of the returned breakdown equals the sum of
  its five components cacheWrite, cacheRead, freshInput, output and guardrails. For
  \<open>computeSumNoCaching\<close>, \<open>computeSumCacheAssessment\<close> and \<open>computeSumCacheSummary\<close> the
  total equals that sum plus the field summarizationCalls.
\<close>

theorem C1_total_is_component_sum:
  "total (computeNoCaching m st rq sy cx sb ins out tm)
     = componentSum (computeNoCaching m st rq sy cx sb ins out tm)
   \<and> total (computeStrategyA m st rq sy cx sb ins out tm ttl)
     = componentSum (computeStrategyA m st rq sy cx sb ins out tm ttl)
   \<and> total (computeStrategyB m st rq sy cx sb ins out tm sc ttl)
     = componentSum (computeStrategyB m st rq sy cx sb ins out tm sc ttl)
   \<and> total (computeBatch m st rq sy cx sb ins out tm)
     = componentSum (computeBatch m st rq sy cx sb ins out tm)
   \<and> total (computeSumNoCaching m st rq sy cx sb ins out sz tm)
     = componentSum (computeSumNoCaching m st rq sy cx sb ins out sz tm)
       + summarizationCalls (computeSumNoCaching m st rq sy cx sb ins out sz tm)
   \<and> total (computeSumCacheAssessment m st rq sy cx sb ins out sz tm ttl)
     = componentSum (computeSumCacheAssessment m st rq sy cx sb ins out sz tm ttl)
       + summarizationCalls (computeSumCacheAssessment m st rq sy cx sb ins out sz tm ttl)
   \<and> total (computeSumCacheSummary m st rq sy cx sb ins out sz tm ttl)
     = componentSum (computeSumCacheSummary m st rq sy cx sb ins out sz tm ttl)
       + summarizationCalls (computeSumCacheSummary m st rq sy cx sb ins out sz tm ttl)"
  by (simp add: componentSum_def computeNoCaching_def computeStrategyA_def
      computeStrategyB_def computeBatch_def computeSumNoCaching_def
      computeSumCacheAssessment_def computeSumCacheSummary_def Let_def)

theorem C1_witness:
  "total (computeStrategyA anthropicLike 30 5 1000 15000 2000 500 1000 1 TTL_5min)
     = componentSum (computeStrategyA anthropicLike 30 5 1000 15000 2000 500 1000 1 TTL_5min)
   \<and> total (computeSumNoCaching anthropicLike 30 5 1000 15000 2000 500 1000 100 1)
     = componentSum (computeSumNoCaching anthropicLike 30 5 1000 15000 2000 500 1000 100 1)
       + 0.72"
proof -
  have "summarizationCalls
      (computeSumNoCaching anthropicLike 30 5 1000 15000 2000 500 1000 100 1) = 0.72"
    by (simp add: computeSumNoCaching_def sim_5_500_1000_100 anthropicLike_def Let_def)
  then show ?thesis
    using C1_total_is_component_sum [of anthropicLike 30 5 1000 15000 2000 500 1000 1
        TTL_5min True 100]
    by simp
qed

section \<open>C4: the average history\<close>

text \<open>
  C4 as stated fails: with one turn, a positive cap and no output tokens the tokens per
  exchange are 0, and the function returns the cap.
\<close>

theorem C4_counterexample: "computeAvgHistoryTokens 100 1 0 = 100"
  by (simp add: computeAvgHistoryTokens_def computeTokensPerExchange_def Math_round_def)

lemma avg_one_turn:
  "computeAvgHistoryTokens cap 1 out =
     (if 0 < cap \<and> computeTokensPerExchange out \<le> 0 then cap else 0)"
proof (cases "0 < cap \<and> 0 < computeTokensPerExchange out")
  case True
  then have "0 < cap / real_of_int (computeTokensPerExchange out)"
    by simp
  then have "1 \<le> \<lceil>cap / real_of_int (computeTokensPerExchange out)\<rceil>"
    by (simp add: ceiling_le_iff less_ceiling_iff int_one_le_iff_zero_less)
  then have "min \<lceil>cap / real_of_int (computeTokensPerExchange out)\<rceil> 1 = 1"
    by simp
  with True show ?thesis
    by (simp add: computeAvgHistoryTokens_def Let_def)
next
  case False
  then show ?thesis
    by (auto simp add: computeAvgHistoryTokens_def Let_def)
qed

lemma avg_pure_ramp:
  assumes "0 < computeTokensPerExchange out" and "1 \<le> turns"
    and "turns \<le> \<lceil>cap / of_int (computeTokensPerExchange out)\<rceil>"
  shows "computeAvgHistoryTokens cap turns out =
     of_int (computeTokensPerExchange out) * (of_int turns - 1) / 2"
proof -
  let ?tpe = "computeTokensPerExchange out"
  have "0 < \<lceil>cap / of_int ?tpe\<rceil>"
    using assms by linarith
  then have "0 < cap / of_int ?tpe"
    by (simp add: less_ceiling_iff)
  then have cap: "0 < cap"
    using assms(1) by (simp add: zero_less_divide_iff)
  have m: "min \<lceil>cap / of_int ?tpe\<rceil> turns = turns"
    using assms(3) by simp
  have t: "real_of_int turns \<noteq> 0"
    using assms(2) by simp
  show ?thesis
    using cap assms(1,2) t by (simp add: computeAvgHistoryTokens_def Let_def m)
qed

text \<open>
  C4 (amended): \<open>computeAvgHistoryTokens cap 1 outputTokens\<close> is 0 for every cap and every
  outputTokens whose tokens per exchange are positive (and for every cap that is not
  positive); where the tokens per exchange are not positive and the cap is, it is the cap.
  With positive tokens per exchange and at least one turn, when the cap is so large that
  the ramp never completes (\<open>ceil (cap / tokensPerExchange) \<ge> turns\<close>) it is the pure-ramp
  average \<open>tokensPerExchange * (turns - 1) / 2\<close>.
\<close>

theorem C4_avg_history:
  "computeAvgHistoryTokens cap 1 out =
     (if 0 < cap \<and> computeTokensPerExchange out \<le> 0 then cap else 0)
   \<and> (0 < computeTokensPerExchange out \<and> 1 \<le> turns
        \<and> turns \<le> \<lceil>cap / of_int (computeTokensPerExchange out)\<rceil>
      \<longrightarrow> computeAvgHistoryTokens cap turns out =
        of_int (computeTokensPerExchange out) * (of_int turns - 1) / 2)"
  using avg_one_turn avg_pure_ramp by blast

theorem C4_witness:
  "computeTokensPerExchange 400 = 500
   \<and> computeAvgHistoryTokens 10000 1 400 = 0
   \<and> (3::int) \<le> \<lceil>(10000::real) / 500\<rceil>
   \<and> computeAvgHistoryTokens 10000 3 400 = 500"
proof -
  have tpe: "computeTokensPerExchange 400 = 500"
    by (simp add: computeTokensPerExchange_def Math_round_def)
  have c: "(3::int) \<le> \<lceil>(10000::real) / 500\<rceil>"
    by simp
  show ?thesis
    using C4_avg_history [of 10000 400 3] tpe c by simp
qed

section \<open>C9: the scenario of thirty students and five turns\<close>

text \<open>
  C9: for 30 students, 5 turns, 1000 system, 15000 context, 2000 submission, 500
  instruction and 1000 output tokens, with the prices of \<open>anthropicLike\<close> and tier
  multiplier 1, \<open>computeStrategyA\<close> returns cacheRead = 149 * 16 * 0.1 * 0.003 = 0.7152 and
  \<open>computeNoCaching\<close> returns freshInput = 150 * 18.5 * 0.003 = 8.325.
\<close>

theorem C9_scenario:
  "cacheRead (computeStrategyA anthropicLike 30 5 1000 15000 2000 500 1000 1 ttl)
     = 149 * 16 * 0.1 * 0.003
   \<and> cacheRead (computeStrategyA anthropicLike 30 5 1000 15000 2000 500 1000 1 ttl) = 0.7152
   \<and> freshInput (computeNoCaching anthropicLike 30 5 1000 15000 2000 500 1000 1)
     = 150 * 18.5 * 0.003
   \<and> freshInput (computeNoCaching anthropicLike 30 5 1000 15000 2000 500 1000 1) = 8.325"
  by (simp add: computeStrategyA_def computeNoCaching_def anthropicLike_def Let_def)

theorem C9_witness:
  "cacheRead (computeStrategyA anthropicLike 30 5 1000 15000 2000 500 1000 1 TTL_1hour) = 0.7152
   \<and> freshInput (computeNoCaching anthropicLike 30 5 1000 15000 2000 500 1000 1) = 8.325"
  using C9_scenario [of TTL_1hour] by simp

section \<open>Rounding to a double\<close>

lemma round_half_even_error: "\<bar>of_int (round_half_even y) - y\<bar> \<le> 1 / 2"
proof -
  have "of_int \<lfloor>y\<rfloor> \<le> y" "y < of_int \<lfloor>y\<rfloor> + 1"
    by linarith+
  then show ?thesis
    by (auto simp add: round_half_even_def Let_def)
qed

lemma expo_up_bounds:
  "1 \<le> x \<Longrightarrow> 2 powi (expo_up x) \<le> x \<and> x < 2 powi (expo_up x + 1)"
proof (induction x rule: expo_up.induct)
  case (1 x)
  show ?case
  proof (cases "2 \<le> x")
    case True
    then have "1 \<le> x / 2"
      by simp
    then have ih: "2 powi (expo_up (x / 2)) \<le> x / 2 \<and> x / 2 < 2 powi (expo_up (x / 2) + 1)"
      using "1.IH" True by blast
    have e: "expo_up x = expo_up (x / 2) + 1"
      using True by (simp add: expo_up.simps [of x])
    show ?thesis
      using ih by (simp add: e power_int_add)
  next
    case False
    then have e: "expo_up x = 0"
      by (simp add: expo_up.simps [of x])
    show ?thesis
      using False "1.prems" by (simp add: e)
  qed
qed

lemma expo_down_bounds:
  "0 < x \<Longrightarrow> x < 1 \<Longrightarrow> 2 powi (expo_down x) \<le> x \<and> x < 2 powi (expo_down x + 1)"
proof (induction x rule: expo_down.induct)
  case (1 x)
  have e: "expo_down x = expo_down (2 * x) - 1"
    using "1.prems" by (simp add: expo_down.simps [of x])
  show ?case
  proof (cases "2 * x < 1")
    case True
    then have ih: "2 powi (expo_down (2 * x)) \<le> 2 * x
        \<and> 2 * x < 2 powi (expo_down (2 * x) + 1)"
      using "1.IH" "1.prems" by simp
    show ?thesis
      using ih by (simp add: e power_int_diff power_int_add)
  next
    case False
    then have "expo_down (2 * x) = 0"
      by (simp add: expo_down.simps [of "2 * x"])
    then show ?thesis
      using False "1.prems" by (simp add: e power_int_minus)
  qed
qed

lemma exponent_bounds:
  assumes "0 < x"
  shows "2 powi (exponent x) \<le> x" "x < 2 powi (exponent x + 1)"
  using assms expo_up_bounds [of x] expo_down_bounds [of x]
  by (auto simp add: exponent_def)

lemma exponent_unique:
  assumes "2 powi e \<le> x" "x < 2 powi (e + 1)"
  shows "exponent x = e"
proof -
  have "0 < (2::real) powi e"
    by simp
  then have pos: "0 < x"
    using assms(1) by linarith
  note b = exponent_bounds [OF pos]
  have lt1: "(2::real) powi e < 2 powi (exponent x + 1)"
    using assms(1) b(2) by linarith
  have 1: "e < exponent x + 1"
  proof (rule ccontr)
    assume "\<not> e < exponent x + 1"
    then have "exponent x + 1 \<le> e"
      by simp
    then have "(2::real) powi (exponent x + 1) \<le> 2 powi e"
      by (intro power_int_increasing) simp_all
    then show False
      using lt1 by linarith
  qed
  have lt2: "(2::real) powi (exponent x) < 2 powi (e + 1)"
    using assms(2) b(1) by linarith
  have 2: "exponent x < e + 1"
  proof (rule ccontr)
    assume "\<not> exponent x < e + 1"
    then have "e + 1 \<le> exponent x"
      by simp
    then have "(2::real) powi (e + 1) \<le> 2 powi (exponent x)"
      by (intro power_int_increasing) simp_all
    then show False
      using lt2 by linarith
  qed
  show ?thesis
    using 1 2 by simp
qed

lemma js_double_eq:
  assumes "2 powi e \<le> \<bar>x\<bar>" "\<bar>x\<bar> < 2 powi (e + 1)"
  shows "js_double x = of_int (round_half_even (x / 2 powi (e - 52))) * 2 powi (e - 52)"
proof -
  have "0 < (2::real) powi e"
    by simp
  then have "x \<noteq> 0"
    using assms(1) by linarith
  then show ?thesis
    by (simp add: js_double_def Let_def exponent_unique [OF assms])
qed

lemma js_double_error:
  "\<bar>js_double x - x\<bar> \<le> \<bar>x\<bar> / 2 ^ 53"
proof (cases "x = 0")
  case True
  then show ?thesis
    by (simp add: js_double_def)
next
  case False
  define e where "e = exponent \<bar>x\<bar>"
  define u :: real where "u = 2 powi (e - 52)"
  have upos: "0 < u"
    by (simp add: u_def)
  have lo: "2 powi e \<le> \<bar>x\<bar>"
    using False exponent_bounds(1) [of "\<bar>x\<bar>"] by (simp add: e_def)
  have ue: "u * 2 ^ 52 = 2 powi e"
    by (simp add: u_def power_int_diff)
  have j: "js_double x = of_int (round_half_even (x / u)) * u"
    using False by (simp add: js_double_def Let_def e_def u_def)
  have "js_double x - x = (of_int (round_half_even (x / u)) - x / u) * u"
    using upos by (simp add: j algebra_simps)
  then have "\<bar>js_double x - x\<bar> = \<bar>of_int (round_half_even (x / u)) - x / u\<bar> * u"
    using upos by (simp add: abs_mult)
  also have "\<dots> \<le> 1 / 2 * u"
    using upos round_half_even_error [of "x / u"] by (intro mult_right_mono) simp_all
  also have "\<dots> = 2 powi e / 2 ^ 53"
    using ue [symmetric] by simp
  also have "\<dots> \<le> \<bar>x\<bar> / 2 ^ 53"
    using lo by (simp add: divide_right_mono)
  finally show ?thesis .
qed

lemma js_double_zero: "js_double 0 = 0"
  by (simp add: js_double_def)

lemma js_double_bounds:
  assumes "0 \<le> x"
  shows "999 / 1000 * x \<le> js_double x" "js_double x \<le> 1001 / 1000 * x"
proof -
  have "x / 2 ^ 53 \<le> x / 1000"
    using assms by (intro divide_left_mono) simp_all
  then have "\<bar>js_double x - x\<bar> \<le> x / 1000"
    using js_double_error [of x] assms by simp
  then show "999 / 1000 * x \<le> js_double x" "js_double x \<le> 1001 / 1000 * x"
    by linarith+
qed

lemma js_double_pos_iff: "(0 < js_double x) = (0 < x)"
proof -
  have "\<bar>x\<bar> / 2 ^ 53 \<le> \<bar>x\<bar> / 2"
    by (intro divide_left_mono) simp_all
  then have "\<bar>js_double x - x\<bar> \<le> \<bar>x\<bar> / 2"
    using js_double_error [of x] by linarith
  then show ?thesis
    by (cases "0 < x") linarith+
qed

lemma js_double_neg_iff: "(js_double x < 0) = (x < 0)"
proof -
  have "\<bar>x\<bar> / 2 ^ 53 \<le> \<bar>x\<bar> / 2"
    by (intro divide_left_mono) simp_all
  then have "\<bar>js_double x - x\<bar> \<le> \<bar>x\<bar> / 2"
    using js_double_error [of x] by linarith
  then show ?thesis
    by (cases "x < 0") linarith+
qed

lemma js_double_scaled:
  assumes "2 ^ 52 \<le> \<bar>x\<bar> * 2 ^ k" "\<bar>x\<bar> * 2 ^ k < 2 ^ 53"
  shows "js_double x = of_int (round_half_even (x * 2 ^ k)) / 2 ^ k"
proof -
  have u: "(2::real) powi (52 - int k) = 2 ^ 52 / 2 ^ k"
    by (simp add: power_int_diff)
  have v: "(2::real) powi (52 - int k + 1) = 2 ^ 53 / 2 ^ k"
    by (simp add: power_int_add power_int_diff)
  have w: "(2::real) powi (52 - int k - 52) = 1 / 2 ^ k"
    by (simp add: power_int_minus field_simps)
  have "2 ^ 52 / 2 ^ k \<le> \<bar>x\<bar>"
    using assms(1) by (simp add: field_simps)
  then have lo: "2 powi (52 - int k) \<le> \<bar>x\<bar>"
    by (simp only: u)
  have "\<bar>x\<bar> < 2 ^ 53 / 2 ^ k"
    using assms(2) by (simp add: field_simps)
  then have hi: "\<bar>x\<bar> < 2 powi (52 - int k + 1)"
    by (simp only: v)
  have "js_double x =
      of_int (round_half_even (x / 2 powi (52 - int k - 52))) * 2 powi (52 - int k - 52)"
    by (rule js_double_eq [OF lo hi])
  then show ?thesis
    by (simp only: w) simp
qed

section \<open>C3: the break-even threshold of caching the summary\<close>

lemma turnsPerCycle_sim:
  "turnsPerCycle (simulateSummarization rq cap out sz) =
     (if computeTokensPerExchange out \<le> 0 \<or> rq \<le> 0 \<or> cap \<le> 0 then 0
      else \<lceil>(cap - sz) / of_int (computeTokensPerExchange out)\<rceil>)"
  by (simp add: simulateSummarization_def Let_def)

lemma breakEvenK_eq:
  "breakEvenK (computeSummarizationCost m st rq sy cx sb ins out sz tm ttl w) =
     (if 0 < js_mul sz (js_sub (js_mul (input_1k (pricing m)) tm)
                (js_mul (nullish (cache_read_1k (pricing m)) 0) tm))
      then Num (js_div
             (js_mul (js_add (js_add sy cx) sz)
                (js_sub (js_mul (getCacheWritePrice m ttl) tm)
                   (js_mul (nullish (cache_read_1k (pricing m)) 0) tm)))
             (js_mul sz (js_sub (js_mul (input_1k (pricing m)) tm)
                (js_mul (nullish (cache_read_1k (pricing m)) 0) tm))))
      else Infinity)"
  by (simp only: computeSummarizationCost_def Let_def SummarizationCostResult.select_convs)

lemma viable_eq:
  "summaryCachingViable (computeSummarizationCost m st rq sy cx sb ins out sz tm ttl w) =
     js_ge (of_int (r_turnsPerCycle (computeSummarizationCost m st rq sy cx sb ins out sz tm ttl w)))
       (breakEvenK (computeSummarizationCost m st rq sy cx sb ins out sz tm ttl w))"
  by (simp only: computeSummarizationCost_def Let_def SummarizationCostResult.select_convs)

lemma tpc_eq:
  "r_turnsPerCycle (computeSummarizationCost m st rq sy cx sb ins out sz tm ttl w) =
     turnsPerCycle (simulateSummarization rq ins out sz)"
  by (simp only: computeSummarizationCost_def Let_def SummarizationCostResult.select_convs)

lemma denominator_sign:
  "(0 < js_mul sz (js_sub pInput pRead)) = (0 < sz * (pInput - pRead))"
  by (simp add: js_mul_def js_sub_def js_double_pos_iff js_double_neg_iff zero_less_mult_iff)

lemma breakEvenK_bounds:
  fixes i tm wp rp sy cx sz :: real
  assumes "sy + cx = 3000" "sz = 500" "0 < i" "0 < tm"
    and wp: "\<bar>wp - (5 / 4) * i\<bar> \<le> i / 1000"
    and rp: "\<bar>rp - (1 / 10) * i\<bar> \<le> i / 10000"
  defines "den \<equiv> js_mul sz (js_sub (js_mul i tm) (js_mul rp tm))"
    and "q \<equiv> js_div
      (js_mul (js_add (js_add sy cx) sz) (js_sub (js_mul wp tm) (js_mul rp tm)))
      (js_mul sz (js_sub (js_mul i tm) (js_mul rp tm)))"
  shows "0 < den" "8 \<le> q" "q \<le> 10"
proof -
  define a where "a = i * tm"
  define pI where "pI = js_mul i tm"
  define pR where "pR = js_mul rp tm"
  define pW where "pW = js_mul wp tm"
  define d1 where "d1 = js_sub pI pR"
  define w1 where "w1 = js_sub pW pR"
  define pre where "pre = js_add sy cx"
  define pfs where "pfs = js_add pre sz"
  define pr where "pr = js_mul pfs w1"
  have den: "den = js_mul sz d1"
    by (simp add: den_def d1_def pI_def pR_def)
  have q: "q = js_div pr den"
    by (simp add: q_def den_def pr_def pfs_def pre_def w1_def pW_def pR_def pI_def)
  have a: "0 < a"
    using assms(3,4) by (simp add: a_def)
  have "(1249 / 1000) * i \<le> wp" "wp \<le> (1251 / 1000) * i"
    using wp by argo+
  then have "(1249 / 1000) * i * tm \<le> wp * tm" "wp * tm \<le> (1251 / 1000) * i * tm"
    using assms(4) by (simp_all add: mult_right_mono)
  then have wt: "(1249 / 1000) * a \<le> wp * tm" "wp * tm \<le> (1251 / 1000) * a"
    by (simp_all add: a_def mult.assoc)
  have "(999 / 10000) * i \<le> rp" "rp \<le> (1001 / 10000) * i"
    using rp by argo+
  then have "(999 / 10000) * i * tm \<le> rp * tm" "rp * tm \<le> (1001 / 10000) * i * tm"
    using assms(4) by (simp_all add: mult_right_mono)
  then have rt: "(999 / 10000) * a \<le> rp * tm" "rp * tm \<le> (1001 / 10000) * a"
    by (simp_all add: a_def mult.assoc)
  have n0: "0 \<le> i * tm"
    using a by (simp add: a_def)
  have pI: "(999 / 1000) * a \<le> pI" "pI \<le> (1001 / 1000) * a"
    using js_double_bounds [OF n0] by (simp_all add: pI_def js_mul_def a_def)
  have n1: "0 \<le> wp * tm"
    using wt(1) a by linarith
  have pW: "(1247 / 1000) * a \<le> pW" "pW \<le> (1253 / 1000) * a"
    using js_double_bounds [OF n1] wt a unfolding pW_def js_mul_def by argo+
  have n2: "0 \<le> rp * tm"
    using rt(1) a by linarith
  have pR: "(499 / 5000) * a \<le> pR" "pR \<le> (1003 / 10000) * a"
    using js_double_bounds [OF n2] rt a unfolding pR_def js_mul_def by argo+
  have n3: "0 \<le> pI - pR"
    using pI pR a by linarith
  have d1: "(897 / 1000) * a \<le> d1" "d1 \<le> (903 / 1000) * a"
    using js_double_bounds [OF n3] pI pR a unfolding d1_def js_sub_def by argo+
  have n4: "0 \<le> sz * d1"
    using d1(1) a by (simp add: assms(2))
  have dn: "448 * a \<le> den" "den \<le> 452 * a"
    using js_double_bounds [OF n4] d1 a unfolding den js_mul_def assms(2)
    by argo+
  have n5: "0 \<le> pW - pR"
    using pW pR a by linarith
  have w1: "(229 / 200) * a \<le> w1" "w1 \<le> (231 / 200) * a"
    using js_double_bounds [OF n5] pW pR a unfolding w1_def js_sub_def by argo+
  have n00: "0 \<le> sy + cx"
    by (simp add: assms(1))
  have pre: "2997 \<le> pre" "pre \<le> 3003"
    using js_double_bounds [OF n00] unfolding pre_def js_add_def assms(1) by argo+
  have n6: "0 \<le> pre + sz"
    using pre by (simp add: assms(2))
  have pfs: "3493 \<le> pfs" "pfs \<le> 3507"
    using js_double_bounds [OF n6] pre unfolding pfs_def js_add_def assms(2)
    by argo+
  have m1: "3493 * ((229 / 200) * a) \<le> pfs * w1"
    using pfs(1) w1(1) a by (intro mult_mono) simp_all
  have m2: "pfs * w1 \<le> 3507 * ((231 / 200) * a)"
    using pfs w1 a by (intro mult_mono) simp_all
  have n7: "0 \<le> pfs * w1"
    using m1 a by linarith
  have pr: "3995 * a \<le> pr" "pr \<le> 4055 * a"
    using js_double_bounds [OF n7] m1 m2 a unfolding pr_def js_mul_def by argo+
  show dpos: "0 < den"
    using dn(1) a by linarith
  have "(3995 * a) / (452 * a) \<le> pr / den"
    using pr(1) dn(2) dpos a by (intro frac_le) simp_all
  then have q1: "3995 / 452 \<le> pr / den"
    using a by simp
  have "pr / den \<le> (4055 * a) / (448 * a)"
    using pr dn a by (intro frac_le) simp_all
  then have q2: "pr / den \<le> 4055 / 448"
    using a by simp
  have "0 \<le> pr / den"
    using q1 by linarith
  then show "8 \<le> q" "q \<le> 10"
    using js_double_bounds [of "pr / den"] q1 q2 unfolding q js_div_def by argo+
qed

lemma breakEvenK_numeric:
  assumes "sy + cx = 3000" "sz = 500" "0 < input_1k (pricing m)" "0 < tm"
    and "\<bar>getCacheWritePrice m ttl - 1.25 * input_1k (pricing m)\<bar>
          \<le> input_1k (pricing m) / 1000"
    and "\<bar>nullish (cache_read_1k (pricing m)) 0 - 0.1 * input_1k (pricing m)\<bar>
          \<le> input_1k (pricing m) / 10000"
  shows "\<exists>b. breakEvenK (computeSummarizationCost m st rq sy cx sb ins out sz tm ttl w) = Num b
           \<and> 8 \<le> b \<and> b \<le> 10"
proof -
  have wp: "\<bar>getCacheWritePrice m ttl - 5 / 4 * input_1k (pricing m)\<bar>
      \<le> input_1k (pricing m) / 1000"
    using assms(5) by simp
  have rp: "\<bar>nullish (cache_read_1k (pricing m)) 0 - 1 / 10 * input_1k (pricing m)\<bar>
      \<le> input_1k (pricing m) / 10000"
    using assms(6) by simp
  note b = breakEvenK_bounds [OF assms(1-4) wp rp]
  show ?thesis
    using b by (simp only: breakEvenK_eq if_True) blast
qed

text \<open>
  C3: \<open>computeSummarizationCost\<close> returns
  \<open>breakEvenK = (prefix + summarySize) * (pWrite - pRead) / (summarySize * (pInput - pRead))\<close>
  with \<open>prefix = sysTokens + ctxTokens\<close> and the three prices scaled by the tier
  multiplier, every operation being the one of the language on doubles; when the
  denominator is not positive, which is the case exactly when the exact product
  \<open>summarySize * (pInput - pRead)\<close> of the scaled prices is not positive, \<open>breakEvenK\<close> is
  infinite; \<open>summaryCachingViable\<close> holds exactly when \<open>turnsPerCycle \<ge> breakEvenK\<close>, where
  \<open>turnsPerCycle\<close> is the one of the simulation and \<open>breakEvenK\<close> the double that is
  returned. For a prefix of 3000, a summary of 500, a write price of 1.25 and a read price
  of 0.1 times a positive input price (the write price up to a thousandth and the read
  price up to a ten-thousandth of the input price, which covers prices that are
  themselves rounded), \<open>breakEvenK\<close> is finite and within 1 of 9, so that caching is
  viable for a cycle of 12 turns and not viable for a cycle of 6.
\<close>

theorem C3_break_even:
  "(let r = computeSummarizationCost m st rq sy cx sb ins out sz tm ttl w;
        pInput = js_mul (input_1k (pricing m)) tm;
        pRead = js_mul (nullish (cache_read_1k (pricing m)) 0) tm;
        pWrite = js_mul (getCacheWritePrice m ttl) tm;
        prefix = js_add sy cx;
        denominator = js_mul sz (js_sub pInput pRead);
        quotient = js_div (js_mul (js_add prefix sz) (js_sub pWrite pRead)) denominator
    in breakEvenK r = (if 0 < denominator then Num quotient else Infinity)
       \<and> (0 < denominator) = (0 < sz * (pInput - pRead))
       \<and> summaryCachingViable r = js_ge (of_int (r_turnsPerCycle r)) (breakEvenK r)
       \<and> r_turnsPerCycle r = turnsPerCycle (simulateSummarization rq ins out sz)
       \<and> summaryCachingViable r =
           (0 < denominator
            \<and> quotient \<le> of_int (turnsPerCycle (simulateSummarization rq ins out sz)))
       \<and> (sy + cx = 3000 \<and> sz = 500 \<and> 0 < input_1k (pricing m) \<and> 0 < tm
            \<and> \<bar>getCacheWritePrice m ttl - 1.25 * input_1k (pricing m)\<bar>
                \<le> input_1k (pricing m) / 1000
            \<and> \<bar>nullish (cache_read_1k (pricing m)) 0 - 0.1 * input_1k (pricing m)\<bar>
                \<le> input_1k (pricing m) / 10000
          \<longrightarrow> (\<exists>b. breakEvenK r = Num b \<and> \<bar>b - 9\<bar> \<le> 1)
            \<and> (r_turnsPerCycle r = 12 \<longrightarrow> summaryCachingViable r)
            \<and> (r_turnsPerCycle r = 6 \<longrightarrow> \<not> summaryCachingViable r)))"
proof -
  let ?r = "computeSummarizationCost m st rq sy cx sb ins out sz tm ttl w"
  let ?pI = "js_mul (input_1k (pricing m)) tm"
  let ?pR = "js_mul (nullish (cache_read_1k (pricing m)) 0) tm"
  let ?pW = "js_mul (getCacheWritePrice m ttl) tm"
  let ?d = "js_mul sz (js_sub ?pI ?pR)"
  let ?q = "js_div (js_mul (js_add (js_add sy cx) sz) (js_sub ?pW ?pR)) ?d"
  have num: "(\<exists>b. breakEvenK ?r = Num b \<and> \<bar>b - 9\<bar> \<le> 1)
      \<and> (r_turnsPerCycle ?r = 12 \<longrightarrow> summaryCachingViable ?r)
      \<and> (r_turnsPerCycle ?r = 6 \<longrightarrow> \<not> summaryCachingViable ?r)"
    if h: "sy + cx = 3000 \<and> sz = 500 \<and> 0 < input_1k (pricing m) \<and> 0 < tm
            \<and> \<bar>getCacheWritePrice m ttl - 1.25 * input_1k (pricing m)\<bar>
                \<le> input_1k (pricing m) / 1000
            \<and> \<bar>nullish (cache_read_1k (pricing m)) 0 - 0.1 * input_1k (pricing m)\<bar>
                \<le> input_1k (pricing m) / 10000"
  proof -
    obtain b where k: "breakEvenK ?r = Num b" and b: "8 \<le> b" "b \<le> 10"
      using breakEvenK_numeric [of sy cx sz m tm ttl st rq sb ins out w] h by blast
    have v: "summaryCachingViable ?r = (b \<le> real_of_int (r_turnsPerCycle ?r))"
      by (simp add: viable_eq [of m st rq sy cx sb ins out sz tm ttl w] k)
    have "\<bar>b - 9\<bar> \<le> 1"
      using b by linarith
    then show ?thesis
      using b by (auto simp add: k v)
  qed
  show ?thesis
    unfolding Let_def
  proof (intro conjI)
    show "breakEvenK ?r = (if 0 < ?d then Num ?q else Infinity)"
      by (rule breakEvenK_eq)
    show "(0 < ?d) = (0 < sz * (?pI - ?pR))"
      by (rule denominator_sign)
    show "summaryCachingViable ?r = js_ge (of_int (r_turnsPerCycle ?r)) (breakEvenK ?r)"
      by (rule viable_eq)
    show "r_turnsPerCycle ?r = turnsPerCycle (simulateSummarization rq ins out sz)"
      by (rule tpc_eq)
    show "summaryCachingViable ?r =
       (0 < ?d \<and> ?q \<le> of_int (turnsPerCycle (simulateSummarization rq ins out sz)))"
      by (simp add: viable_eq [of m st rq sy cx sb ins out sz tm ttl w]
          breakEvenK_eq [of m st rq sy cx sb ins out sz tm ttl w]
          tpc_eq [of m st rq sy cx sb ins out sz tm ttl w])
    show "sy + cx = 3000 \<and> sz = 500 \<and> 0 < input_1k (pricing m) \<and> 0 < tm
            \<and> \<bar>getCacheWritePrice m ttl - 1.25 * input_1k (pricing m)\<bar>
                \<le> input_1k (pricing m) / 1000
            \<and> \<bar>nullish (cache_read_1k (pricing m)) 0 - 0.1 * input_1k (pricing m)\<bar>
                \<le> input_1k (pricing m) / 10000
          \<longrightarrow> (\<exists>b. breakEvenK ?r = Num b \<and> \<bar>b - 9\<bar> \<le> 1)
            \<and> (r_turnsPerCycle ?r = 12 \<longrightarrow> summaryCachingViable ?r)
            \<and> (r_turnsPerCycle ?r = 6 \<longrightarrow> \<not> summaryCachingViable ?r)"
      using num by blast
  qed
qed

theorem C3_witness:
  "(\<exists>b. breakEvenK (computeSummarizationCost anthropicLike 30 20 1000 2000 2000 1700 80 500 1
        TTL_5min 0) = Num b \<and> \<bar>b - 9\<bar> \<le> 1)
   \<and> r_turnsPerCycle (computeSummarizationCost anthropicLike 30 20 1000 2000 2000 1700 80 500 1
      TTL_5min 0) = 12
   \<and> summaryCachingViable (computeSummarizationCost anthropicLike 30 20 1000 2000 2000 1700 80
      500 1 TTL_5min 0)
   \<and> r_turnsPerCycle (computeSummarizationCost anthropicLike 30 20 1000 2000 2000 1100 80 500 1
      TTL_5min 0) = 6
   \<and> \<not> summaryCachingViable (computeSummarizationCost anthropicLike 30 20 1000 2000 2000 1100 80
      500 1 TTL_5min 0)
   \<and> breakEvenK (computeSummarizationCost anthropicLike 30 20 1000 2000 2000 1700 80 0 1
      TTL_5min 0) = Infinity"
proof -
  have tpe: "computeTokensPerExchange 80 = 100"
    by (simp add: computeTokensPerExchange_def Math_round_def)
  have t12: "turnsPerCycle (simulateSummarization 20 1700 80 500) = 12"
    by (simp add: turnsPerCycle_sim tpe)
  have t6: "turnsPerCycle (simulateSummarization 20 1100 80 500) = 6"
    by (simp add: turnsPerCycle_sim tpe)
  have p: "(1000::real) + 2000 = 3000 \<and> (500::real) = 500
      \<and> 0 < input_1k (pricing anthropicLike) \<and> (0::real) < 1
      \<and> \<bar>getCacheWritePrice anthropicLike TTL_5min - 1.25 * input_1k (pricing anthropicLike)\<bar>
          \<le> input_1k (pricing anthropicLike) / 1000
      \<and> \<bar>nullish (cache_read_1k (pricing anthropicLike)) 0
            - 0.1 * input_1k (pricing anthropicLike)\<bar>
          \<le> input_1k (pricing anthropicLike) / 10000"
    by (simp add: anthropicLike_def getCacheWritePrice_def)
  note a = C3_break_even [of anthropicLike 30 20 1000 2000 2000 1700 80 500 1 TTL_5min 0,
      unfolded Let_def]
  note b = C3_break_even [of anthropicLike 30 20 1000 2000 2000 1100 80 500 1 TTL_5min 0,
      unfolded Let_def]
  note c = C3_break_even [of anthropicLike 30 20 1000 2000 2000 1700 80 0 1 TTL_5min 0,
      unfolded Let_def]
  note a4 = a [THEN conjunct2, THEN conjunct2, THEN conjunct2, THEN conjunct1]
  note b4 = b [THEN conjunct2, THEN conjunct2, THEN conjunct2, THEN conjunct1]
  note an = a [THEN conjunct2, THEN conjunct2, THEN conjunct2, THEN conjunct2, THEN conjunct2,
      THEN mp, OF p]
  note bn = b [THEN conjunct2, THEN conjunct2, THEN conjunct2, THEN conjunct2, THEN conjunct2,
      THEN mp, OF p]
  have ta: "r_turnsPerCycle (computeSummarizationCost anthropicLike 30 20 1000 2000 2000 1700
      80 500 1 TTL_5min 0) = 12"
    by (simp only: a4 t12)
  have tb: "r_turnsPerCycle (computeSummarizationCost anthropicLike 30 20 1000 2000 2000 1100
      80 500 1 TTL_5min 0) = 6"
    by (simp only: b4 t6)
  have z: "\<not> 0 < js_mul 0 x" for x
    by (simp add: js_mul_def js_double_zero)
  have inf: "breakEvenK (computeSummarizationCost anthropicLike 30 20 1000 2000 2000 1700 80 0
      1 TTL_5min 0) = Infinity"
    using c [THEN conjunct1] z by simp
  show ?thesis
    using an bn ta tb inf by blast
qed

text \<open>
  Rounding decides the comparison when the exact quotient is a whole number. With the
  prices 0.003, 0.00375 and 0.0003, a prefix of 85900, a summary of 2300, a history cap of
  8350 and 100 output tokens, the cycle has 49 turns and the exact quotient is 49; the
  quotient of the doubles is \<open>49 + 1 / 2 ^ 47\<close>, the next double after 49, and caching the
  summary is not viable.
\<close>

lemma break_even_tie:
  "breakEvenK (computeSummarizationCost anthropicLike 30 60 900 85000 2000 8350 100 2300 1
      TTL_5min 0) = Num (49 + 1 / 2 ^ 47)
   \<and> r_turnsPerCycle (computeSummarizationCost anthropicLike 30 60 900 85000 2000 8350 100
      2300 1 TTL_5min 0) = 49
   \<and> \<not> summaryCachingViable (computeSummarizationCost anthropicLike 30 60 900 85000 2000
      8350 100 2300 1 TTL_5min 0)
   \<and> (900 + 85000 + 2300) * (0.00375 - 0.0003) / (2300 * (0.003 - 0.0003)) = (49::real)"
proof -
  let ?r = "computeSummarizationCost anthropicLike 30 60 900 85000 2000 8350 100 2300 1
      TTL_5min 0"
  define pI :: real where "pI = 6917529027641082 / 2 ^ 61"
  define pR :: real where "pR = 5534023222112865 / 2 ^ 64"
  define pW :: real where "pW = 8646911284551352 / 2 ^ 61"
  define d1 :: real where "d1 = 6225776124876974 / 2 ^ 61"
  define dn :: real where "dn = 6991838421492695 / 2 ^ 50"
  define w1 :: real where "w1 = 7955158381787244 / 2 ^ 61"
  define pr :: real where "pr = 5353126291455345 / 2 ^ 44"
  have i: "js_mul (input_1k (pricing anthropicLike)) 1 = pI"
    by (simp add: anthropicLike_def js_mul_def pI_def js_double_scaled [where k = 61]
        round_half_even_def Let_def)
  have r: "js_mul (nullish (cache_read_1k (pricing anthropicLike)) 0) 1 = pR"
    by (simp add: anthropicLike_def js_mul_def pR_def js_double_scaled [where k = 64]
        round_half_even_def Let_def)
  have w: "js_mul (getCacheWritePrice anthropicLike TTL_5min) 1 = pW"
    by (simp add: anthropicLike_def getCacheWritePrice_def js_mul_def pW_def
        js_double_scaled [where k = 61] round_half_even_def Let_def)
  have c: "js_add 900 85000 = 85900"
    by (simp add: js_add_def js_double_scaled [where k = 36] round_half_even_def Let_def)
  have s: "js_add 85900 2300 = 88200"
    by (simp add: js_add_def js_double_scaled [where k = 36] round_half_even_def Let_def)
  have d: "js_sub pI pR = d1"
    by (simp add: js_sub_def pI_def pR_def d1_def js_double_scaled [where k = 61]
        round_half_even_def Let_def)
  have n: "js_mul 2300 d1 = dn"
    by (simp add: js_mul_def d1_def dn_def js_double_scaled [where k = 50]
        round_half_even_def Let_def)
  have v: "js_sub pW pR = w1"
    by (simp add: js_sub_def pW_def pR_def w1_def js_double_scaled [where k = 61]
        round_half_even_def Let_def)
  have p: "js_mul 88200 w1 = pr"
    by (simp add: js_mul_def w1_def pr_def js_double_scaled [where k = 44]
        round_half_even_def Let_def)
  have q: "js_div pr dn = 49 + 1 / 2 ^ 47"
    by (simp add: js_div_def pr_def dn_def js_double_scaled [where k = 47]
        round_half_even_def Let_def)
  have pos: "0 < dn"
    by (simp add: dn_def)
  have k: "breakEvenK ?r = Num (49 + 1 / 2 ^ 47)"
    by (simp only: breakEvenK_eq i r w c s d n v p q pos if_True)
  have tpe: "computeTokensPerExchange 100 = 125"
    by (simp add: computeTokensPerExchange_def Math_round_def)
  have t: "r_turnsPerCycle ?r = 49"
    by (simp add: tpc_eq turnsPerCycle_sim tpe)
  have "\<not> summaryCachingViable ?r"
    by (simp add: viable_eq [of anthropicLike 30 60 900 85000 2000 8350 100 2300 1 TTL_5min
          0] k t)
  then show ?thesis
    using k t by simp
qed

section \<open>C6: cache amortization\<close>

lemma total_diff_algebra:
  fixes c :: real
  shows "c * (w * tm) + (n - 1) * c * (r * tm) + n * f * (i * tm) + n * ou * (po * tm)
     - (n * (c + f) * (i * tm) + n * ou * (po * tm))
     = c * tm * ((w - r) - n * (i - r))"
  by (simp add: algebra_simps)

lemma a_minus_nc:
  "total (computeStrategyA m st rq sy cx sb ins out tm ttl)
     - total (computeNoCaching m st rq sy cx sb ins out tm) =
   ((sy + cx) / 1000) * tm *
     ((getCacheWritePrice m ttl - nullish (cache_read_1k (pricing m)) 0)
      - of_int (st * rq) * (input_1k (pricing m) - nullish (cache_read_1k (pricing m)) 0))"
proof -
  have s: "(sy + cx + sb + ins) / 1000 = (sy + cx) / 1000 + (sb + ins) / 1000"
    by (simp add: add_divide_distrib)
  show ?thesis
    by (simp only: computeStrategyA_def computeNoCaching_def Let_def
        CostBreakdown.select_convs s total_diff_algebra)
qed

text \<open>
  C6 as stated fails: with no system and no context tokens nothing is cached, the two
  strategies cost the same for every number of requests, and no threshold exists.
\<close>

theorem C6_counterexample:
  "\<not> (\<exists>T::int. \<forall>st rq. 1 \<le> st \<and> 1 \<le> rq \<and> T < st * rq \<longrightarrow>
     total (computeStrategyA anthropicLike st rq 0 0 2000 500 1000 1 TTL_5min)
       < total (computeNoCaching anthropicLike st rq 0 0 2000 500 1000 1))"
proof
  assume "\<exists>T::int. \<forall>st rq. 1 \<le> st \<and> 1 \<le> rq \<and> T < st * rq \<longrightarrow>
     total (computeStrategyA anthropicLike st rq 0 0 2000 500 1000 1 TTL_5min)
       < total (computeNoCaching anthropicLike st rq 0 0 2000 500 1000 1)"
  then obtain T :: int where T: "\<And>st rq. 1 \<le> st \<and> 1 \<le> rq \<and> T < st * rq \<Longrightarrow>
     total (computeStrategyA anthropicLike st rq 0 0 2000 500 1000 1 TTL_5min)
       < total (computeNoCaching anthropicLike st rq 0 0 2000 500 1000 1)"
    by blast
  have "total (computeStrategyA anthropicLike (max 1 (T + 1)) 1 0 0 2000 500 1000 1 TTL_5min)
       < total (computeNoCaching anthropicLike (max 1 (T + 1)) 1 0 0 2000 500 1000 1)"
    by (rule T) simp
  moreover have
    "total (computeStrategyA anthropicLike (max 1 (T + 1)) 1 0 0 2000 500 1000 1 TTL_5min)
       - total (computeNoCaching anthropicLike (max 1 (T + 1)) 1 0 0 2000 500 1000 1) = 0"
    by (simp add: a_minus_nc)
  ultimately show False
    by simp
qed

text \<open>
  C6 (amended): for any workload with a positive number of cached tokens
  (\<open>sysTokens + ctxTokens > 0\<close>), a positive tier multiplier and any price list whose cache
  read price (0 when absent) is below its input price, there is a finite threshold such
  that whenever \<open>totalRequests = students * reqsPerStudent\<close> exceeds it, the total of
  \<open>computeStrategyA\<close> is strictly less than the total of \<open>computeNoCaching\<close> on the same
  inputs.
\<close>

theorem C6_amortization:
  assumes "nullish (cache_read_1k (pricing m)) 0 < input_1k (pricing m)"
    and "0 < tm" and "0 < sy + cx"
  shows "\<exists>T::int. \<forall>st rq. T < st * rq \<longrightarrow>
     total (computeStrategyA m st rq sy cx sb ins out tm ttl)
       < total (computeNoCaching m st rq sy cx sb ins out tm)"
proof -
  let ?pI = "input_1k (pricing m)" and ?pR = "nullish (cache_read_1k (pricing m)) 0"
    and ?pW = "getCacheWritePrice m ttl"
  let ?T = "\<lceil>(?pW - ?pR) / (?pI - ?pR)\<rceil>"
  have d: "0 < ?pI - ?pR"
    using assms(1) by simp
  have "total (computeStrategyA m st rq sy cx sb ins out tm ttl)
       < total (computeNoCaching m st rq sy cx sb ins out tm)" if "?T < st * rq" for st rq
  proof -
    have "(?pW - ?pR) / (?pI - ?pR) < of_int (st * rq)"
      using that by (simp add: ceiling_less_iff)
    then have "?pW - ?pR < of_int (st * rq) * (?pI - ?pR)"
      using d by (simp add: pos_divide_less_eq)
    then have neg: "(?pW - ?pR) - of_int (st * rq) * (?pI - ?pR) < 0"
      by simp
    have pos: "0 < ((sy + cx) / 1000) * tm"
      using assms by simp
    have "((sy + cx) / 1000) * tm * ((?pW - ?pR) - of_int (st * rq) * (?pI - ?pR)) < 0"
      using pos neg by (rule mult_pos_neg)
    then show ?thesis
      using a_minus_nc [of m st rq sy cx sb ins out tm ttl] by linarith
  qed
  then show ?thesis
    by blast
qed

theorem C6_witness:
  "nullish (cache_read_1k (pricing anthropicLike)) 0 < input_1k (pricing anthropicLike)
   \<and> (0::real) < 1000 + 15000
   \<and> (\<exists>T::int. \<forall>st rq. T < st * rq \<longrightarrow>
        total (computeStrategyA anthropicLike st rq 1000 15000 2000 500 1000 1 TTL_5min)
          < total (computeNoCaching anthropicLike st rq 1000 15000 2000 500 1000 1))"
proof -
  have p: "nullish (cache_read_1k (pricing anthropicLike)) 0 < input_1k (pricing anthropicLike)"
    by (simp add: anthropicLike_def)
  have t: "(0::real) < 1" and c: "(0::real) < 1000 + 15000"
    by simp_all
  show ?thesis
    using p c C6_amortization [OF p t c, of 2000 500 1000 TTL_5min] by blast
qed

section \<open>C5: invariants of the summarization simulation\<close>

lemma simLoop_rec:
  "simLoop t n cap tpe sz s =
     (if t \<le> n then simLoop (t + 1) n cap tpe sz (simStep t n cap tpe sz s) else s)"
  by (subst simLoop.simps) (simp only: simStep_def Let_def)

lemma simLoop_invariant:
  assumes "I t s"
    and "\<And>t s. t \<le> n \<Longrightarrow> I t s \<Longrightarrow> I (t + 1) (simStep t n cap tpe sz s)"
  shows "I (max t (n + 1)) (simLoop t n cap tpe sz s)"
  using assms
proof (induction t n cap tpe sz s rule: simLoop.induct)
  case (1 t n cap tpe sz s)
  show ?case
  proof (cases "t \<le> n")
    case True
    let ?x = "s\<lparr>l_historyPerTurn := l_historyPerTurn s @ [l_history s],
                  l_total := l_total s + l_history s,
                  l_history := l_history s + of_int tpe\<rparr>"
    let ?xa = "if cap \<le> l_history ?x \<and> t < n
         then ?x\<lparr>l_summarizationTurns := l_summarizationTurns ?x @ [t], l_history := sz\<rparr>
         else ?x"
    have eq: "simLoop t n cap tpe sz s = simLoop (t + 1) n cap tpe sz ?xa"
      using True by (subst simLoop.simps) (simp only: Let_def if_True)
    have m: "max (t + 1) (n + 1) = max t (n + 1)"
      using True by simp
    have "I (t + 1) ?xa"
      using "1.prems"(2) [OF True "1.prems"(1)] by (simp only: simStep_def Let_def)
    then have "I (max (t + 1) (n + 1)) (simLoop (t + 1) n cap tpe sz ?xa)"
      using "1.prems"(2) by (rule "1.IH" [OF True refl refl])
    then show ?thesis
      by (simp only: eq m)
  next
    case False
    then have "simLoop t n cap tpe sz s = s" and "max t (n + 1) = t"
      by (simp_all add: simLoop_rec [of t])
    then show ?thesis
      using "1.prems"(1) by simp
  qed
qed

lemma simStep_fields:
  "l_historyPerTurn (simStep t n cap tpe sz s) = l_historyPerTurn s @ [l_history s]"
  "l_total (simStep t n cap tpe sz s) = l_total s + l_history s"
  "l_history (simStep t n cap tpe sz s) =
     (if cap \<le> l_history s + of_int tpe \<and> t < n then sz else l_history s + of_int tpe)"
  "l_summarizationTurns (simStep t n cap tpe sz s) =
     (if cap \<le> l_history s + of_int tpe \<and> t < n then l_summarizationTurns s @ [t]
      else l_summarizationTurns s)"
  by (simp_all add: simStep_def Let_def)

lemma simLoop_below_cap:
  assumes "sz < cap" "0 < cap"
  shows "\<forall>h\<in>set (l_historyPerTurn (simLoop 1 n cap tpe sz sim0)). h < cap"
proof -
  let ?I = "\<lambda>(t::int) (s::SimLoop). (\<forall>h\<in>set (l_historyPerTurn s). h < cap) \<and> (t \<le> n \<longrightarrow> l_history s < cap)"
  have "?I (max 1 (n + 1)) (simLoop 1 n cap tpe sz sim0)"
  proof (rule simLoop_invariant)
    show "?I 1 sim0"
      using assms by (simp add: sim0_def)
  next
    fix t s
    assume "t \<le> n" and "?I t s"
    then show "?I (t + 1) (simStep t n cap tpe sz s)"
      using assms by (auto simp add: simStep_fields)
  qed
  then show ?thesis
    by blast
qed

lemma simLoop_length:
  "length (l_historyPerTurn (simLoop 1 n cap tpe sz sim0)) = nat n"
proof -
  let ?I = "\<lambda>(t::int) (s::SimLoop). 1 \<le> t \<and> length (l_historyPerTurn s) = nat (t - 1)"
  have "?I (max 1 (n + 1)) (simLoop 1 n cap tpe sz sim0)"
  proof (rule simLoop_invariant)
    show "?I 1 sim0"
      by (simp add: sim0_def)
  next
    fix t s
    assume "t \<le> n" and "?I t s"
    then show "?I (t + 1) (simStep t n cap tpe sz s)"
      by (auto simp add: simStep_fields)
  qed
  then show ?thesis
    by (cases "1 \<le> n + 1") (simp_all add: max_def)
qed

lemma simLoop_first:
  assumes "1 \<le> n"
  shows "l_historyPerTurn (simLoop 1 n cap tpe sz sim0) ! 0 = 0"
proof -
  let ?I = "\<lambda>(t::int) (s::SimLoop). 1 \<le> t \<and> (if t = 1 then l_historyPerTurn s = [] \<and> l_history s = 0
      else l_historyPerTurn s \<noteq> [] \<and> l_historyPerTurn s ! 0 = 0)"
  have "?I (max 1 (n + 1)) (simLoop 1 n cap tpe sz sim0)"
  proof (rule simLoop_invariant)
    show "?I 1 sim0"
      by (simp add: sim0_def)
  next
    fix t s
    assume "t \<le> n" and "?I t s"
    then show "?I (t + 1) (simStep t n cap tpe sz s)"
      by (auto simp add: simStep_fields nth_append split: if_splits)
  qed
  then show ?thesis
    using assms by (simp add: max_def split: if_splits)
qed

lemma simLoop_nonneg:
  assumes "0 \<le> sz" "0 \<le> tpe"
  shows "(\<forall>h\<in>set (l_historyPerTurn (simLoop 1 n cap tpe sz sim0)). 0 \<le> h)
    \<and> 0 \<le> l_total (simLoop 1 n cap tpe sz sim0)"
proof -
  let ?I = "\<lambda>(t::int) (s::SimLoop). (\<forall>h\<in>set (l_historyPerTurn s). 0 \<le> h) \<and> 0 \<le> l_history s
     \<and> 0 \<le> l_total s"
  have "?I (max 1 (n + 1)) (simLoop 1 n cap tpe sz sim0)"
  proof (rule simLoop_invariant)
    show "?I 1 sim0"
      by (simp add: sim0_def)
  next
    fix t s
    assume "t \<le> n" and "?I t s"
    then show "?I (t + 1) (simStep t n cap tpe sz s)"
      using assms by (auto simp add: simStep_fields)
  qed
  then show ?thesis
    by blast
qed

lemma sim_nondegenerate:
  assumes "0 < computeTokensPerExchange out" and "1 \<le> rq" and "0 < cap"
  shows "historyPerTurn (simulateSummarization rq cap out sz) =
      l_historyPerTurn (simLoop 1 rq cap (computeTokensPerExchange out) sz sim0)"
    and "summarizationTurns (simulateSummarization rq cap out sz) =
      l_summarizationTurns (simLoop 1 rq cap (computeTokensPerExchange out) sz sim0)"
    and "totalHistoryTokensSent (simulateSummarization rq cap out sz) =
      l_total (simLoop 1 rq cap (computeTokensPerExchange out) sz sim0)"
  using assms by (simp_all add: simulateSummarization_def Let_def sim0_def)

lemma numSummarizations_length:
  "numSummarizations (simulateSummarization rq cap out sz) =
     int (length (summarizationTurns (simulateSummarization rq cap out sz)))"
  by (simp add: simulateSummarization_def Let_def)

text \<open>
  C5: for every \<open>reqsPerStudent \<ge> 1\<close>, \<open>historyCap > 0\<close>, \<open>outputTokens\<close> with
  \<open>tokensPerExchange > 0\<close> and \<open>summarySize\<close> with \<open>0 \<le> summarySize < historyCap\<close>, the
  result of \<open>simulateSummarization\<close> has one history value per turn, its first history
  value is 0, every history value is below \<open>historyCap + tokensPerExchange\<close>, and
  \<open>numSummarizations\<close> is the length of \<open>summarizationTurns\<close>.
\<close>

theorem C5_simulation_invariant:
  assumes "1 \<le> rq" and "0 < cap" and "0 < computeTokensPerExchange out"
    and "0 \<le> sz" and "sz < cap"
  shows "length (historyPerTurn (simulateSummarization rq cap out sz)) = nat rq
    \<and> historyPerTurn (simulateSummarization rq cap out sz) ! 0 = 0
    \<and> (\<forall>h\<in>set (historyPerTurn (simulateSummarization rq cap out sz)).
          h < cap + of_int (computeTokensPerExchange out))
    \<and> numSummarizations (simulateSummarization rq cap out sz) =
        int (length (summarizationTurns (simulateSummarization rq cap out sz)))"
proof -
  let ?tpe = "computeTokensPerExchange out"
  have h: "historyPerTurn (simulateSummarization rq cap out sz) =
      l_historyPerTurn (simLoop 1 rq cap ?tpe sz sim0)"
    using assms(3,1,2) by (rule sim_nondegenerate)
  have "\<forall>x\<in>set (l_historyPerTurn (simLoop 1 rq cap ?tpe sz sim0)). x < cap"
    using assms(5,2) by (rule simLoop_below_cap)
  then have b: "\<forall>x\<in>set (l_historyPerTurn (simLoop 1 rq cap ?tpe sz sim0)).
      x < cap + of_int ?tpe"
    using assms(3) by fastforce
  show ?thesis
    using b simLoop_length [of rq cap ?tpe sz] simLoop_first [OF assms(1), of cap ?tpe sz]
      numSummarizations_length [of rq cap out sz]
    by (simp only: h)
qed

theorem C5_witness:
  "(1::int) \<le> 5 \<and> (0::real) < 500 \<and> 0 < computeTokensPerExchange 1000
   \<and> (0::real) \<le> 100 \<and> (100::real) < 500
   \<and> historyPerTurn (simulateSummarization 5 500 1000 100) = [0, 100, 100, 100, 100]
   \<and> length (historyPerTurn (simulateSummarization 5 500 1000 100)) = 5
   \<and> historyPerTurn (simulateSummarization 5 500 1000 100) ! 0 = 0
   \<and> list_all (\<lambda>h. h < 500 + of_int (computeTokensPerExchange 1000))
        (historyPerTurn (simulateSummarization 5 500 1000 100))
   \<and> numSummarizations (simulateSummarization 5 500 1000 100) =
        int (length (summarizationTurns (simulateSummarization 5 500 1000 100)))"
proof -
  have tpe: "0 < computeTokensPerExchange 1000"
    by (simp add: computeTokensPerExchange_def Math_round_def)
  have a: "(1::int) \<le> 5" and b: "(0::real) < 500" and c: "(0::real) \<le> 100"
    and d: "(100::real) < 500"
    by simp_all
  show ?thesis
    using C5_simulation_invariant [OF a b tpe c d] tpe
    by (simp add: sim_5_500_1000_100 list_all_iff)
qed

section \<open>C7: no negative cost\<close>

lemma getCacheWritePrice_nonneg: "nonnegPrices m \<Longrightarrow> 0 \<le> getCacheWritePrice m ttl"
  by (simp add: nonnegPrices_def getCacheWritePrice_def Let_def)

lemma batch_prices_nonneg:
  assumes "nonnegPrices m"
  shows "0 \<le> nullish (batch_input_1k (pricing m)) (input_1k (pricing m))"
    and "0 \<le> nullish (batch_output_1k (pricing m)) (output_1k (pricing m))"
  using assms
  by (cases "batch_input_1k (pricing m)"; cases "batch_output_1k (pricing m)";
      simp add: nonnegPrices_def Let_def)+

lemma requests_ge_one:
  assumes "1 \<le> (st::int)" "1 \<le> rq"
  shows "0 \<le> real_of_int (st * rq) - 1" "0 \<le> real_of_int (st * rq)"
    "0 \<le> real_of_int st" "0 \<le> real_of_int rq - 1" "0 \<le> real_of_int st - 1"
proof -
  have "1 * 1 \<le> st * rq"
    using assms by (intro mult_mono) simp_all
  then have "1 \<le> st * rq" by simp
  then have "1 \<le> real_of_int (st * rq)"
    by linarith
  then show "0 \<le> real_of_int (st * rq) - 1" "0 \<le> real_of_int (st * rq)" by simp_all
  show "0 \<le> real_of_int st" "0 \<le> real_of_int rq - 1" "0 \<le> real_of_int st - 1"
    using assms by simp_all
qed

lemmas nonneg_intros =
  add_nonneg_nonneg mult_nonneg_nonneg divide_nonneg_nonneg

lemma nonneg_noCaching:
  assumes "nonnegPrices m" "1 \<le> st" "1 \<le> rq" "0 \<le> sy" "0 \<le> cx" "0 \<le> sb" "0 \<le> ins"
    "0 \<le> out" "0 \<le> tm"
  shows "nonnegBreakdown (computeNoCaching m st rq sy cx sb ins out tm)"
proof -
  have p: "0 \<le> input_1k (pricing m)" "0 \<le> output_1k (pricing m)"
    using assms(1) by (simp_all add: nonnegPrices_def Let_def)
  note n = requests_ge_one [OF assms(2,3)]
  show ?thesis
    unfolding nonnegBreakdown_def computeNoCaching_def Let_def CostBreakdown.select_convs
    using p n assms(4-) by (intro conjI nonneg_intros) simp_all
qed

lemma nonneg_batch:
  assumes "nonnegPrices m" "1 \<le> st" "1 \<le> rq" "0 \<le> sy" "0 \<le> cx" "0 \<le> sb" "0 \<le> ins"
    "0 \<le> out" "0 \<le> tm"
  shows "nonnegBreakdown (computeBatch m st rq sy cx sb ins out tm)"
proof -
  note p = batch_prices_nonneg [OF assms(1)]
  note n = requests_ge_one [OF assms(2,3)]
  show ?thesis
    unfolding nonnegBreakdown_def computeBatch_def Let_def CostBreakdown.select_convs
    using p n assms(4-) by (intro conjI nonneg_intros) simp_all
qed

lemma nonneg_strategyA:
  assumes "nonnegPrices m" "1 \<le> st" "1 \<le> rq" "0 \<le> sy" "0 \<le> cx" "0 \<le> sb" "0 \<le> ins"
    "0 \<le> out" "0 \<le> tm"
  shows "nonnegBreakdown (computeStrategyA m st rq sy cx sb ins out tm ttl)"
proof -
  have p: "0 \<le> input_1k (pricing m)" "0 \<le> output_1k (pricing m)"
    "0 \<le> nullish (cache_read_1k (pricing m)) 0" "0 \<le> getCacheWritePrice m ttl"
    using assms(1) getCacheWritePrice_nonneg [OF assms(1)]
    by (simp_all add: nonnegPrices_def Let_def)
  note n = requests_ge_one [OF assms(2,3)]
  show ?thesis
    unfolding nonnegBreakdown_def computeStrategyA_def Let_def CostBreakdown.select_convs
    using p n assms(4-) by (intro conjI nonneg_intros) simp_all
qed

lemma nonneg_strategyB:
  assumes "nonnegPrices m" "1 \<le> st" "1 \<le> rq" "0 \<le> sy" "0 \<le> cx" "0 \<le> sb" "0 \<le> ins"
    "0 \<le> out" "0 \<le> tm"
  shows "nonnegBreakdown (computeStrategyB m st rq sy cx sb ins out tm sc ttl)"
proof -
  have p: "0 \<le> input_1k (pricing m)" "0 \<le> output_1k (pricing m)"
    "0 \<le> nullish (cache_read_1k (pricing m)) 0" "0 \<le> getCacheWritePrice m ttl"
    using assms(1) getCacheWritePrice_nonneg [OF assms(1)]
    by (simp_all add: nonnegPrices_def Let_def)
  note n = requests_ge_one [OF assms(2,3)]
  show ?thesis
  proof (cases sc)
    case True
    show ?thesis
      unfolding nonnegBreakdown_def computeStrategyB_def Let_def CostBreakdown.select_convs
      using p n assms(4-) True by (simp only: if_True) (intro conjI nonneg_intros; simp)
  next
    case False
    show ?thesis
      unfolding nonnegBreakdown_def computeStrategyB_def Let_def CostBreakdown.select_convs
      using p n assms(4-) False by (simp only: if_False) (intro conjI nonneg_intros; simp)
  qed
qed

lemma sim_nonneg:
  assumes "0 \<le> sz"
  shows "0 \<le> totalHistoryTokensSent (simulateSummarization rq cap out sz)"
    and "0 \<le> numSummarizations (simulateSummarization rq cap out sz)"
    and "\<forall>h\<in>set (historyPerTurn (simulateSummarization rq cap out sz)). 0 \<le> h"
proof -
  show "0 \<le> numSummarizations (simulateSummarization rq cap out sz)"
    by (simp add: numSummarizations_length)
  show "0 \<le> totalHistoryTokensSent (simulateSummarization rq cap out sz)"
  proof (cases "0 < computeTokensPerExchange out \<and> 1 \<le> rq \<and> 0 < cap")
    case True
    then show ?thesis
      using simLoop_nonneg [OF assms, of "computeTokensPerExchange out" rq cap]
      by (simp add: sim_nondegenerate)
  next
    case False
    then show ?thesis
      by (auto simp add: simulateSummarization_def Let_def)
  qed
  show "\<forall>h\<in>set (historyPerTurn (simulateSummarization rq cap out sz)). 0 \<le> h"
  proof (cases "0 < computeTokensPerExchange out \<and> 1 \<le> rq \<and> 0 < cap")
    case True
    then show ?thesis
      using simLoop_nonneg [OF assms, of "computeTokensPerExchange out" rq cap]
      by (simp add: sim_nondegenerate)
  next
    case False
    then show ?thesis
      by (auto simp add: simulateSummarization_def Let_def)
  qed
qed

lemma nonneg_sumNoCaching:
  assumes "nonnegPrices m" "1 \<le> st" "1 \<le> rq" "0 \<le> sy" "0 \<le> cx" "0 \<le> sb" "0 \<le> ins"
    "0 \<le> out" "0 \<le> tm" "0 \<le> sz"
  shows "nonnegBreakdown (computeSumNoCaching m st rq sy cx sb ins out sz tm)"
proof -
  have p: "0 \<le> input_1k (pricing m)" "0 \<le> output_1k (pricing m)"
    using assms(1) by (simp_all add: nonnegPrices_def Let_def)
  note n = requests_ge_one [OF assms(2,3)]
  have s: "0 \<le> totalHistoryTokensSent (simulateSummarization rq ins out sz)"
    "0 \<le> real_of_int (numSummarizations (simulateSummarization rq ins out sz))"
    using sim_nonneg [OF assms(10), of rq ins out] by simp_all
  show ?thesis
    unfolding nonnegBreakdown_def computeSumNoCaching_def Let_def CostBreakdown.select_convs
    using p n s assms(4-) by (intro conjI nonneg_intros) simp_all
qed

lemma nonneg_sumCacheAssessment:
  assumes "nonnegPrices m" "1 \<le> st" "1 \<le> rq" "0 \<le> sy" "0 \<le> cx" "0 \<le> sb" "0 \<le> ins"
    "0 \<le> out" "0 \<le> tm" "0 \<le> sz"
  shows "nonnegBreakdown (computeSumCacheAssessment m st rq sy cx sb ins out sz tm ttl)"
proof -
  have p: "0 \<le> input_1k (pricing m)" "0 \<le> output_1k (pricing m)"
    "0 \<le> nullish (cache_read_1k (pricing m)) 0" "0 \<le> getCacheWritePrice m ttl"
    using assms(1) getCacheWritePrice_nonneg [OF assms(1)]
    by (simp_all add: nonnegPrices_def Let_def)
  note n = requests_ge_one [OF assms(2,3)]
  have s: "0 \<le> totalHistoryTokensSent (simulateSummarization rq ins out sz)"
    "0 \<le> real_of_int (numSummarizations (simulateSummarization rq ins out sz))"
    using sim_nonneg [OF assms(10), of rq ins out] by simp_all
  show ?thesis
    unfolding nonnegBreakdown_def computeSumCacheAssessment_def Let_def
      CostBreakdown.select_convs
    using p n s assms(4-) by (intro conjI nonneg_intros) simp_all
qed

lemma sumLoop_rec:
  "sumLoop t n sim ap fp sb sz pI pW pR s =
     (if t \<le> n then sumLoop (t + 1) n sim ap fp sb sz pI pW pR
        (sumStep t sim ap fp sb sz pI pW pR s)
      else s)"
  by (subst sumLoop.simps) (simp only: sumStep_def Let_def)

lemma sumLoop_invariant:
  assumes "I t s"
    and "\<And>t s. t \<le> n \<Longrightarrow> I t s \<Longrightarrow> I (t + 1) (sumStep t sim ap fp sb sz pI pW pR s)"
  shows "I (max t (n + 1)) (sumLoop t n sim ap fp sb sz pI pW pR s)"
  using assms
proof (induction t n sim ap fp sb sz pI pW pR s rule: sumLoop.induct)
  case (1 t n sim ap fp sb sz pI pW pR s)
  show ?case
  proof (cases "t \<le> n")
    case True
    have m: "max (t + 1) (n + 1) = max t (n + 1)"
      using True by simp
    have "I (t + 1) (sumStep t sim ap fp sb sz pI pW pR s)"
      using "1.prems"(2) [OF True "1.prems"(1)] .
    then have "I (max (t + 1) (n + 1)) (sumLoop (t + 1) n sim ap fp sb sz pI pW pR
        (sumStep t sim ap fp sb sz pI pW pR s))"
      unfolding sumStep_def Let_def
      using "1.prems"(2) by (rule "1.IH" [OF True refl refl refl refl refl refl])
    then show ?thesis
      using True by (simp only: sumLoop_rec [of t] m if_True)
  next
    case False
    then have "sumLoop t n sim ap fp sb sz pI pW pR s = s" and "max t (n + 1) = t"
      by (simp_all add: sumLoop_rec [of t])
    then show ?thesis
      using "1.prems"(1) by simp
  qed
qed

lemma js_index_nonneg:
  assumes "\<forall>h\<in>set xs. (0::real) \<le> h"
  shows "0 \<le> nullish (js_index xs i) 0"
  using assms by (simp add: js_index_def)

lemma sumStep_fields:
  "hasSummary s = False \<Longrightarrow>
     perStudentCacheWrite (sumStep 1 sim ap fp sb sz pI pW pR s)
       = perStudentCacheWrite s + (ap / 1000) * pW"
  "0 \<le> fp \<Longrightarrow> 0 \<le> ap \<Longrightarrow> 0 \<le> pW \<Longrightarrow>
     perStudentCacheWrite s \<le> perStudentCacheWrite (sumStep t sim ap fp sb sz pI pW pR s)"
  "0 \<le> fp \<Longrightarrow> 0 \<le> ap \<Longrightarrow> 0 \<le> pR \<Longrightarrow>
     perStudentCacheRead s \<le> perStudentCacheRead (sumStep t sim ap fp sb sz pI pW pR s)"
  "0 \<le> sb \<Longrightarrow> 0 \<le> pI \<Longrightarrow> \<forall>h\<in>set (historyPerTurn sim). 0 \<le> h \<Longrightarrow>
     perStudentFreshInput s \<le> perStudentFreshInput (sumStep t sim ap fp sb sz pI pW pR s)"
proof -
  show "perStudentCacheWrite (sumStep 1 sim ap fp sb sz pI pW pR s)
       = perStudentCacheWrite s + (ap / 1000) * pW" if "hasSummary s = False"
    using that by (simp add: sumStep_def Let_def)
  show "perStudentCacheWrite s \<le> perStudentCacheWrite (sumStep t sim ap fp sb sz pI pW pR s)"
    if "0 \<le> fp" "0 \<le> ap" "0 \<le> pW"
    using that by (simp add: sumStep_def Let_def)
  show "perStudentCacheRead s \<le> perStudentCacheRead (sumStep t sim ap fp sb sz pI pW pR s)"
    if "0 \<le> fp" "0 \<le> ap" "0 \<le> pR"
    using that by (simp add: sumStep_def Let_def)
  show "perStudentFreshInput s \<le> perStudentFreshInput (sumStep t sim ap fp sb sz pI pW pR s)"
    if "0 \<le> sb" "0 \<le> pI" "\<forall>h\<in>set (historyPerTurn sim). 0 \<le> h"
  proof -
    have "0 \<le> nullish (js_index (historyPerTurn sim) (t - 1)) 0"
      using that(3) by (rule js_index_nonneg)
    then show ?thesis
      using that(1,2) by (simp add: sumStep_def Let_def)
  qed
qed

lemma sumLoop_bounds:
  assumes "1 \<le> n" "0 \<le> ap" "0 \<le> fp" "0 \<le> sb" "0 \<le> pI" "0 \<le> pW" "0 \<le> pR"
    and "\<forall>h\<in>set (historyPerTurn sim). 0 \<le> h"
  shows "(ap / 1000) * pW \<le> perStudentCacheWrite (sumLoop 1 n sim ap fp sb sz pI pW pR sum0)"
    and "0 \<le> perStudentCacheRead (sumLoop 1 n sim ap fp sb sz pI pW pR sum0)"
    and "0 \<le> perStudentFreshInput (sumLoop 1 n sim ap fp sb sz pI pW pR sum0)"
proof -
  let ?I = "\<lambda>(t::int) (s::SumLoop). 1 \<le> t
      \<and> (if t = 1 then perStudentCacheWrite s = 0 \<and> hasSummary s = False
          else (ap / 1000) * pW \<le> perStudentCacheWrite s)
      \<and> 0 \<le> perStudentCacheRead s \<and> 0 \<le> perStudentFreshInput s"
  have "?I (max 1 (n + 1)) (sumLoop 1 n sim ap fp sb sz pI pW pR sum0)"
  proof (rule sumLoop_invariant)
    show "?I 1 sum0"
      by (simp add: sum0_def)
  next
    fix t :: int and s :: SumLoop
    assume t: "t \<le> n" and I: "?I t s"
    have r: "perStudentCacheRead s \<le> perStudentCacheRead (sumStep t sim ap fp sb sz pI pW pR s)"
      using assms(3,2,7) by (rule sumStep_fields(3))
    have f: "perStudentFreshInput s
        \<le> perStudentFreshInput (sumStep t sim ap fp sb sz pI pW pR s)"
      using assms(4,5,8) by (rule sumStep_fields(4))
    have w: "(ap / 1000) * pW \<le> perStudentCacheWrite (sumStep t sim ap fp sb sz pI pW pR s)"
    proof (cases "t = 1")
      case True
      then show ?thesis
        using I sumStep_fields(1) [of s sim ap fp sb sz pI pW pR] by simp
    next
      case False
      then have "(ap / 1000) * pW \<le> perStudentCacheWrite s"
        using I by simp
      moreover have "perStudentCacheWrite s
          \<le> perStudentCacheWrite (sumStep t sim ap fp sb sz pI pW pR s)"
        using assms(3,2,6) by (rule sumStep_fields(2))
      ultimately show ?thesis
        by linarith
    qed
    show "?I (t + 1) (sumStep t sim ap fp sb sz pI pW pR s)"
      using I r f w by auto
  qed
  then show "(ap / 1000) * pW \<le> perStudentCacheWrite (sumLoop 1 n sim ap fp sb sz pI pW pR sum0)"
    and "0 \<le> perStudentCacheRead (sumLoop 1 n sim ap fp sb sz pI pW pR sum0)"
    and "0 \<le> perStudentFreshInput (sumLoop 1 n sim ap fp sb sz pI pW pR sum0)"
    using assms(1) by (simp_all add: max_def split: if_splits)
qed

lemma nonneg_sumCacheSummary:
  assumes "nonnegPrices m" "1 \<le> st" "1 \<le> rq" "0 \<le> sy" "0 \<le> cx" "0 \<le> sb" "0 \<le> ins"
    "0 \<le> out" "0 \<le> tm" "0 \<le> sz"
  shows "nonnegBreakdown (computeSumCacheSummary m st rq sy cx sb ins out sz tm ttl)"
proof -
  define pI where "pI = input_1k (pricing m) * tm"
  define pO where "pO = output_1k (pricing m) * tm"
  define pW where "pW = getCacheWritePrice m ttl * tm"
  define pR where "pR = nullish (cache_read_1k (pricing m)) 0 * tm"
  define sim where "sim = simulateSummarization rq ins out sz"
  define L where "L = sumLoop 1 rq sim (sy + cx) (sy + cx + sz) sb sz pI pW pR sum0"
  define w0 where "w0 = ((sy + cx) / 1000) * pW"
  have p: "0 \<le> pI" "0 \<le> pO" "0 \<le> pW" "0 \<le> pR"
    using assms(1,9) getCacheWritePrice_nonneg [OF assms(1), of ttl]
    by (simp_all add: nonnegPrices_def Let_def pI_def pO_def pW_def pR_def)
  note n = requests_ge_one [OF assms(2,3)]
  have s: "0 \<le> real_of_int (numSummarizations sim)"
    "\<forall>h\<in>set (historyPerTurn sim). 0 \<le> h"
    using sim_nonneg [OF assms(10), of rq ins out] by (simp_all add: sim_def)
  have ap: "0 \<le> sy + cx" and fp: "0 \<le> sy + cx + sz"
    using assms by simp_all
  have w: "w0 \<le> perStudentCacheWrite L"
    unfolding L_def w0_def using assms(3) ap fp assms(6) p(1,3,4) s(2) by (rule sumLoop_bounds(1))
  have r: "0 \<le> perStudentCacheRead L"
    unfolding L_def using assms(3) ap fp assms(6) p(1,3,4) s(2) by (rule sumLoop_bounds(2))
  have f: "0 \<le> perStudentFreshInput L"
    unfolding L_def using assms(3) ap fp assms(6) p(1,3,4) s(2) by (rule sumLoop_bounds(3))
  have w0: "0 \<le> w0"
    unfolding w0_def using ap p(3) by simp
  have "real_of_int st * w0 \<le> real_of_int st * perStudentCacheWrite L"
    using w n(3) by (rule mult_left_mono)
  then have "0 \<le> real_of_int st * perStudentCacheWrite L - (real_of_int st - 1) * w0"
    using w0 by (simp add: algebra_simps)
  moreover have "0 \<le> real_of_int st * perStudentCacheWrite L"
    using n(3) w w0 by simp
  ultimately have cw: "0 \<le> real_of_int st * perStudentCacheWrite L
      - (if 1 < st then (real_of_int st - 1) * ((sy + cx) / 1000) * pW else 0)"
    by (simp add: w0_def mult.assoc)
  have cr: "0 \<le> real_of_int st * perStudentCacheRead L
      + (if 1 < st then (real_of_int st - 1) * ((sy + cx) / 1000) * pR else 0)"
    using n r ap p by (intro nonneg_intros) simp_all
  have fi: "0 \<le> real_of_int st * perStudentFreshInput L"
    using n f by simp
  have ou: "0 \<le> real_of_int (st * rq) * (out / 1000) * pO"
    using n p assms(8) by (intro nonneg_intros) simp_all
  have sc: "0 \<le> real_of_int st * real_of_int (numSummarizations sim)
      * ((sy + ins) / 1000 * pI + sz / 1000 * pO)"
    using n s p assms(4,7,10) by (intro nonneg_intros) simp_all
  have tot: "0 \<le> real_of_int st * perStudentCacheWrite L
      - (if 1 < st then (real_of_int st - 1) * ((sy + cx) / 1000) * pW else 0)
      + (real_of_int st * perStudentCacheRead L
      + (if 1 < st then (real_of_int st - 1) * ((sy + cx) / 1000) * pR else 0))
      + real_of_int st * perStudentFreshInput L
      + real_of_int (st * rq) * (out / 1000) * pO
      + real_of_int st * real_of_int (numSummarizations sim)
      * ((sy + ins) / 1000 * pI + sz / 1000 * pO)"
    using cw cr fi ou sc by linarith
  show ?thesis
    unfolding nonnegBreakdown_def computeSumCacheSummary_def Let_def CostBreakdown.select_convs
      sum0_def [symmetric] pI_def [symmetric] pO_def [symmetric] pW_def [symmetric]
      pR_def [symmetric] sim_def [symmetric] L_def [symmetric]
    using cw cr fi ou tot by simp
qed

text \<open>
  C7: every field of the breakdown returned by each strategy compute function (cacheWrite,
  cacheRead, freshInput, output, guardrails, total) is non-negative, for all inputs with
  non-negative token counts (the summary size among them) and prices, a tier multiplier
  that is not negative, at least one student and at least one request per student. For
  \<open>computeSumCacheSummary\<close> the write of the first turn of every student is at least the
  shared-prefix write, so the correction for \<open>students - 1\<close> shared-prefix writes leaves
  at least one of them.
\<close>

theorem C7_nonnegative:
  assumes "nonnegPrices m" and "1 \<le> st" and "1 \<le> rq" and "0 \<le> sy" and "0 \<le> cx"
    and "0 \<le> sb" and "0 \<le> ins" and "0 \<le> out" and "0 \<le> tm" and "0 \<le> sz"
  shows "nonnegBreakdown (computeNoCaching m st rq sy cx sb ins out tm)
    \<and> nonnegBreakdown (computeStrategyA m st rq sy cx sb ins out tm ttl)
    \<and> nonnegBreakdown (computeStrategyB m st rq sy cx sb ins out tm sc ttl)
    \<and> nonnegBreakdown (computeBatch m st rq sy cx sb ins out tm)
    \<and> nonnegBreakdown (computeSumNoCaching m st rq sy cx sb ins out sz tm)
    \<and> nonnegBreakdown (computeSumCacheAssessment m st rq sy cx sb ins out sz tm ttl)
    \<and> nonnegBreakdown (computeSumCacheSummary m st rq sy cx sb ins out sz tm ttl)"
  using nonneg_noCaching [OF assms(1-9)] nonneg_strategyA [OF assms(1-9)]
    nonneg_strategyB [OF assms(1-9)] nonneg_batch [OF assms(1-9)]
    nonneg_sumNoCaching [OF assms] nonneg_sumCacheAssessment [OF assms]
    nonneg_sumCacheSummary [OF assms]
  by blast

theorem C7_witness:
  "nonnegPrices anthropicLike
   \<and> nonnegBreakdown (computeStrategyA anthropicLike 30 5 1000 15000 2000 500 1000 1 TTL_5min)
   \<and> nonnegBreakdown
       (computeSumCacheSummary anthropicLike 30 5 1000 15000 2000 500 1000 100 1 TTL_5min)
   \<and> 0 \<le> cacheWrite
       (computeSumCacheSummary anthropicLike 30 5 1000 15000 2000 500 1000 100 1 TTL_5min)"
proof -
  have p: "nonnegPrices anthropicLike"
    by (simp add: nonnegPrices_def anthropicLike_def)
  have c: "(1::int) \<le> 30" "(1::int) \<le> 5" "(0::real) \<le> 1000" "(0::real) \<le> 15000"
    "(0::real) \<le> 2000" "(0::real) \<le> 500" "(0::real) \<le> 1000" "(0::real) \<le> 1"
    "(0::real) \<le> 100"
    by simp_all
  show ?thesis
    using p C7_nonnegative [OF p c, of TTL_5min True]
    by (simp add: nonnegBreakdown_def)
qed

section \<open>The sample grid\<close>

lemma Math_round_step:
  assumes "x + 1 \<le> y"
  shows "Math_round x < Math_round y"
proof -
  have "real_of_int \<lfloor>x + 1 / 2\<rfloor> \<le> x + 1 / 2"
    by (rule of_int_floor_le)
  moreover have "real_of_int (\<lfloor>x + 1 / 2\<rfloor> + 1) = real_of_int \<lfloor>x + 1 / 2\<rfloor> + 1"
    by simp
  ultimately have "real_of_int (\<lfloor>x + 1 / 2\<rfloor> + 1) \<le> y + 1 / 2"
    using assms by linarith
  then have "\<lfloor>x + 1 / 2\<rfloor> + 1 \<le> \<lfloor>y + 1 / 2\<rfloor>"
    by (simp only: le_floor_iff)
  then show ?thesis
    by (simp add: Math_round_def)
qed

lemma grid_strict:
  assumes "1 \<le> step"
  shows "sorted_wrt (<) (map (\<lambda>i. Math_round (mn + step * of_nat i)) [0..<n])"
proof -
  have "Math_round (mn + step * of_nat i) < Math_round (mn + step * of_nat j)"
    if "i < j" for i j :: nat
  proof -
    have "real i + 1 \<le> real j"
      using that by linarith
    then have "step * (real i + 1) \<le> step * real j"
      using assms by (intro mult_left_mono) simp_all
    then have "step * real i + 1 \<le> step * real j"
      using assms by (simp add: algebra_simps)
    then show ?thesis
      by (intro Math_round_step) simp
  qed
  then show ?thesis
    by (simp add: sorted_wrt_map sorted_wrt_mono_rel [OF _ sorted_wrt_upt])
qed

lemma range_step:
  "1 \<le> (real_of_int (last (SENSITIVITY_SAMPLE_POINTS k))
       - real_of_int (hd (SENSITIVITY_SAMPLE_POINTS k))) / (real (40::nat) - 1)"
  by (cases k) simp_all

lemma samplePoints_strict:
  "sorted_wrt (<) (samplePoints st) \<and> currentValueOf st \<in> set (samplePoints st)"
proof -
  let ?range = "SENSITIVITY_SAMPLE_POINTS (st_sensitivityParam st)"
  let ?step = "(real_of_int (last ?range) - real_of_int (hd ?range)) / (real (40::nat) - 1)"
  let ?pts = "map (\<lambda>i. Math_round (real_of_int (hd ?range) + ?step * real i)) [0..<40]"
  have g: "sorted_wrt (<) ?pts"
    using range_step by (rule grid_strict)
  show ?thesis
  proof (cases "currentValueOf st \<in> set ?pts")
    case True
    then have "samplePoints st = ?pts"
      by (simp add: samplePoints_def Let_def)
    then show ?thesis
      using g True by simp
  next
    case False
    then have s: "samplePoints st = sort (?pts @ [currentValueOf st])"
      by (simp add: samplePoints_def Let_def)
    have "distinct ?pts"
      using g strict_sorted_iff by blast
    then have "distinct (?pts @ [currentValueOf st])"
      using False by simp
    then have "sorted_wrt (<) (sort (?pts @ [currentValueOf st]))"
      by (simp add: strict_sorted_iff)
    then show ?thesis
      by (simp add: s)
  qed
qed

section \<open>The stabilization pass\<close>

lemma assignRun_nth:
  "assignRun k rj r d ! l =
     (if k \<le> l \<and> l < rj \<and> l < length d
      then (d ! l)\<lparr>winner := winner (d ! r), winnerColor := winnerColor (d ! r)\<rparr>
      else d ! l)"
proof (induction k rj r d arbitrary: l rule: assignRun.induct)
  case (1 k rj r d)
  show ?case
  proof (cases "k < rj")
    case True
    let ?x = "(d ! k)\<lparr>winner := winner (d ! r), winnerColor := winnerColor (d ! r)\<rparr>"
    let ?d' = "d[k := ?x]"
    have eq: "assignRun k rj r d = assignRun (k + 1) rj r ?d'"
      using True by (subst assignRun.simps) simp
    have nth: "?d' ! i = (if i = k \<and> k < length d then ?x else d ! i)" for i
      by (cases "k < length d") (simp_all add: list_update_beyond nth_list_update)
    have wr: "winner (?d' ! r) = winner (d ! r)" "winnerColor (?d' ! r) = winnerColor (d ! r)"
      by (simp_all add: nth)
    have "assignRun (k + 1) rj r ?d' ! l =
       (if k + 1 \<le> l \<and> l < rj \<and> l < length ?d'
        then (?d' ! l)\<lparr>winner := winner (?d' ! r), winnerColor := winnerColor (?d' ! r)\<rparr>
        else ?d' ! l)"
      using True by (rule "1.IH")
    then have "assignRun k rj r d ! l =
       (if k + 1 \<le> l \<and> l < rj \<and> l < length d
        then (?d' ! l)\<lparr>winner := winner (d ! r), winnerColor := winnerColor (d ! r)\<rparr>
        else ?d' ! l)"
      by (simp only: eq wr length_list_update)
    then show ?thesis
      using True by (cases "l = k") (auto simp add: nth)
  next
    case False
    then have "assignRun k rj r d = d" and "\<not> (k \<le> l \<and> l < rj)"
      by (simp_all add: assignRun.simps [of k])
    then show ?thesis
      by auto
  qed
qed

lemma scanRun_le: "rj \<le> length d \<Longrightarrow> scanRun K d rj \<le> length d"
proof (induction K d rj rule: scanRun.induct)
  case (1 K d rj)
  show ?case
  proof (cases "rj < length d \<and> nearTie K (d ! rj)")
    case True
    then have "scanRun K d (rj + 1) \<le> length d"
      using "1.IH" by simp
    then show ?thesis
      using True by (subst scanRun.simps) simp
  next
    case False
    then show ?thesis
      using "1.prems" by (subst scanRun.simps) auto
  qed
qed

lemma scanRun_run: "rj \<le> m \<Longrightarrow> m < scanRun K d rj \<Longrightarrow> nearTie K (d ! m)"
proof (induction K d rj rule: scanRun.induct)
  case (1 K d rj)
  show ?case
  proof (cases "rj < length d \<and> nearTie K (d ! rj)")
    case True
    then have eq: "scanRun K d rj = scanRun K d (rj + 1)"
      by (subst scanRun.simps) simp
    show ?thesis
    proof (cases "m = rj")
      case True
      then show ?thesis
        using \<open>rj < length d \<and> nearTie K (d ! rj)\<close> by simp
    next
      case False
      then have "rj + 1 \<le> m"
        using "1.prems"(1) by simp
      then show ?thesis
        using "1.IH" True "1.prems"(2) eq by simp
    qed
  next
    case False
    then have "scanRun K d rj = rj"
      by (subst scanRun.simps) auto
    then show ?thesis
      using "1.prems" by simp
  qed
qed

lemma scanRun_stop: "scanRun K d rj < length d \<Longrightarrow> \<not> nearTie K (d ! scanRun K d rj)"
proof (induction K d rj rule: scanRun.induct)
  case (1 K d rj)
  show ?case
  proof (cases "rj < length d \<and> nearTie K (d ! rj)")
    case True
    then have eq: "scanRun K d rj = scanRun K d (rj + 1)"
      by (subst scanRun.simps) simp
    show ?thesis
      using "1.IH" True "1.prems" unfolding eq by simp
  next
    case False
    then have "scanRun K d rj = rj"
      by (subst scanRun.simps) auto
    then show ?thesis
      using False "1.prems" by simp
  qed
qed

lemma allKeys_cost: "cost p = cost q \<Longrightarrow> allKeys sk p = allKeys sk q"
  by (simp add: allKeys_def)

lemma nearTie_cost: "cost p = cost q \<Longrightarrow> nearTie K p = nearTie K q"
  by (simp add: nearTie_def sortedCosts_def)

lemma stabLoop_stabilized:
  assumes "\<forall>l<length d. allKeys sk (d ! l) = K"
  shows "stabilized K ri d (stabLoop sk ri d)"
  using assms
proof (induction sk ri d rule: stabLoop.induct)
  case (1 sk ri d)
  let ?n = "length d"
  show ?case
  proof (cases "ri < ?n")
    case False
    then have "stabLoop sk ri d = d"
      by (subst stabLoop.simps) simp
    then show ?thesis
      using False by (auto simp add: stabilized_def)
  next
    case lt: True
    have K: "allKeys sk (d ! ri) = K"
      using "1.prems" lt by simp
    show ?thesis
    proof (cases "nearTie K (d ! ri)")
      case False
      then have eq: "stabLoop sk ri d = stabLoop sk (ri + 1) d"
        using lt K by (subst stabLoop.simps) (simp add: Let_def)
      have "\<not> nearTie (allKeys sk (d ! ri)) (d ! ri)"
        using False K by simp
      then have IH: "stabilized K (ri + 1) d (stabLoop sk (ri + 1) d)"
        using "1.IH"(2) [OF lt refl refl] "1.prems" by simp
      show ?thesis
        unfolding eq stabilized_def
      proof (intro conjI allI impI)
        show "length (stabLoop sk (ri + 1) d) = length d"
          using IH by (simp add: stabilized_def)
      next
        fix l
        assume "l < length d"
        then show "cost (stabLoop sk (ri + 1) d ! l) = cost (d ! l)"
          "pvalue (stabLoop sk (ri + 1) d ! l) = pvalue (d ! l)"
          "isCurrent (stabLoop sk (ri + 1) d ! l) = isCurrent (d ! l)"
          using IH by (simp_all add: stabilized_def)
      next
        fix l
        assume "l < length d" and "l < ri \<or> \<not> nearTie K (d ! l)"
        then have "l < ri + 1 \<or> \<not> nearTie K (d ! l)"
          by auto
        then show "stabLoop sk (ri + 1) d ! l = d ! l"
          using IH \<open>l < length d\<close> unfolding stabilized_def by blast
      next
        fix l j
        assume h: "ri \<le> l \<and> l < j \<and> j \<le> length d
            \<and> (\<forall>m. l \<le> m \<and> m < j \<longrightarrow> nearTie K (d ! m))
            \<and> (j < length d \<longrightarrow> \<not> nearTie K (d ! j))"
        then have "nearTie K (d ! l)"
          by blast
        then have "l \<noteq> ri"
          using False by blast
        then have "ri + 1 \<le> l"
          using h by simp
        then have h': "ri + 1 \<le> l \<and> l < j \<and> j \<le> length d
            \<and> (\<forall>m. l \<le> m \<and> m < j \<longrightarrow> nearTie K (d ! m))
            \<and> (j < length d \<longrightarrow> \<not> nearTie K (d ! j))"
          using h by blast
        from IH h' show
          "winner (stabLoop sk (ri + 1) d ! l)
             = winner (d ! (if j < length d then j else length d - 1))"
          "winnerColor (stabLoop sk (ri + 1) d ! l)
             = winnerColor (d ! (if j < length d then j else length d - 1))"
          unfolding stabilized_def by blast+
      qed
    next
      case tie: True
      define rj where "rj = scanRun K d (ri + 1)"
      define res where "res = (if rj < ?n then rj else ?n - 1)"
      define d' where "d' = assignRun ri rj res d"
      have eq: "stabLoop sk ri d = stabLoop sk rj d'"
        using lt K tie by (subst stabLoop.simps) (simp add: Let_def rj_def res_def d'_def)
      have rj1: "ri + 1 \<le> rj"
        unfolding rj_def by (rule scanRun_ge)
      have rj2: "rj \<le> ?n"
        unfolding rj_def using lt by (intro scanRun_le) simp
      have run: "nearTie K (d ! m)" if "ri \<le> m" "m < rj" for m
      proof (cases "m = ri")
        case True
        then show ?thesis using tie by simp
      next
        case False
        then have "ri + 1 \<le> m" using that(1) by simp
        then show ?thesis
          using that(2) unfolding rj_def by (rule scanRun_run)
      qed
      have stop: "\<not> nearTie K (d ! rj)" if "rj < ?n"
        using that unfolding rj_def by (rule scanRun_stop)
      have len': "length d' = ?n"
        by (simp add: d'_def length_assignRun)
      have nth': "d' ! l =
          (if ri \<le> l \<and> l < rj
           then (d ! l)\<lparr>winner := winner (d ! res), winnerColor := winnerColor (d ! res)\<rparr>
           else d ! l)" if "l < ?n" for l
        using that by (simp add: d'_def assignRun_nth)
      have cost': "cost (d' ! l) = cost (d ! l)" "pvalue (d' ! l) = pvalue (d ! l)"
        "isCurrent (d' ! l) = isCurrent (d ! l)" if "l < ?n" for l
        using that by (simp_all add: nth')
      have tie': "nearTie K (d' ! l) = nearTie K (d ! l)" if "l < ?n" for l
        using cost'(1) [OF that] by (rule nearTie_cost)
      have keys': "\<forall>l<length d'. allKeys sk (d' ! l) = K"
      proof (intro allI impI)
        fix l
        assume "l < length d'"
        then have l: "l < ?n"
          by (simp add: len')
        have "allKeys sk (d' ! l) = allKeys sk (d ! l)"
          using cost'(1) [OF l] by (rule allKeys_cost)
        then show "allKeys sk (d' ! l) = K"
          using "1.prems" l by simp
      qed
      note IH0 = "1.IH"(1) [OF lt refl refl _ refl refl, unfolded K, folded rj_def,
          folded res_def, folded d'_def]
      have IH: "stabilized K rj d' (stabLoop sk rj d')"
        using tie keys' by (rule IH0)
      have IHlen: "length (stabLoop sk rj d') = ?n"
        using IH by (simp add: stabilized_def len')
      have IHframe: "cost (stabLoop sk rj d' ! l) = cost (d' ! l)"
        "pvalue (stabLoop sk rj d' ! l) = pvalue (d' ! l)"
        "isCurrent (stabLoop sk rj d' ! l) = isCurrent (d' ! l)" if "l < ?n" for l
        using IH that by (simp_all add: stabilized_def len')
      have IHsame: "stabLoop sk rj d' ! l = d' ! l"
        if "l < ?n" "l < rj \<or> \<not> nearTie K (d ! l)" for l
        using IH that tie' [OF that(1)] unfolding stabilized_def len' by blast
      have IHrun: "winner (stabLoop sk rj d' ! l)
            = winner (d' ! (if j < ?n then j else ?n - 1))
          \<and> winnerColor (stabLoop sk rj d' ! l)
            = winnerColor (d' ! (if j < ?n then j else ?n - 1))"
        if "rj \<le> l" "l < j" "j \<le> ?n" "\<forall>m. l \<le> m \<and> m < j \<longrightarrow> nearTie K (d ! m)"
          "j < ?n \<longrightarrow> \<not> nearTie K (d ! j)" for l j
      proof -
        have "\<forall>m. l \<le> m \<and> m < j \<longrightarrow> nearTie K (d' ! m)"
          using that(3,4) tie' by simp
        moreover have "j < ?n \<longrightarrow> \<not> nearTie K (d' ! j)"
          using that(5) tie' by simp
        ultimately show ?thesis
          using IH that(1,2,3) unfolding stabilized_def len' by blast
      qed
      show ?thesis
        unfolding eq stabilized_def
      proof (intro conjI allI impI)
        show "length (stabLoop sk rj d') = length d"
          by (rule IHlen)
      next
        fix l
        assume "l < length d"
        then show "cost (stabLoop sk rj d' ! l) = cost (d ! l)"
          "pvalue (stabLoop sk rj d' ! l) = pvalue (d ! l)"
          "isCurrent (stabLoop sk rj d' ! l) = isCurrent (d ! l)"
          by (simp_all add: IHframe cost')
      next
        fix l
        assume l: "l < length d" and c: "l < ri \<or> \<not> nearTie K (d ! l)"
        have out: "\<not> (ri \<le> l \<and> l < rj)"
          using c run by auto
        have "l < rj \<or> \<not> nearTie K (d ! l)"
          using c rj1 by auto
        then have "stabLoop sk rj d' ! l = d' ! l"
          using l by (intro IHsame)
        also have "\<dots> = d ! l"
          using out l by (auto simp add: nth')
        finally show "stabLoop sk rj d' ! l = d ! l" .
      next
        fix l j
        assume h: "ri \<le> l \<and> l < j \<and> j \<le> length d
            \<and> (\<forall>m. l \<le> m \<and> m < j \<longrightarrow> nearTie K (d ! m))
            \<and> (j < length d \<longrightarrow> \<not> nearTie K (d ! j))"
        have goal: "winner (stabLoop sk rj d' ! l)
              = winner (d ! (if j < ?n then j else ?n - 1))
            \<and> winnerColor (stabLoop sk rj d' ! l)
              = winnerColor (d ! (if j < ?n then j else ?n - 1))"
        proof (cases "l < rj")
          case True
          have "j = rj"
          proof (rule ccontr)
            assume "j \<noteq> rj"
            then consider "j < rj" | "rj < j" by linarith
            then show False
            proof cases
              case 1
              then have "nearTie K (d ! j)" "j < ?n"
                using h run [of j] rj2 by auto
              then show False using h by blast
            next
              case 2
              then have "nearTie K (d ! rj)" "rj < ?n"
                using h True by auto
              then show False using stop by blast
            qed
          qed
          then have r: "(if j < ?n then j else ?n - 1) = res"
            by (simp add: res_def)
          have "stabLoop sk rj d' ! l = d' ! l"
            using h True by (intro IHsame) auto
          also have "\<dots> = (d ! l)\<lparr>winner := winner (d ! res),
              winnerColor := winnerColor (d ! res)\<rparr>"
            using h True by (simp add: nth')
          finally show ?thesis
            by (simp add: r)
        next
          case False
          then have ge: "rj \<le> l" by simp
          let ?i = "if j < ?n then j else ?n - 1"
          have "rj \<le> ?i" "?i < ?n"
            using ge h by auto
          then have "d' ! ?i = d ! ?i"
            by (auto simp add: nth')
          then show ?thesis
            using IHrun [of l j] ge h by simp
        qed
        show "winner (stabLoop sk rj d' ! l)
              = winner (d ! (if j < length d then j else length d - 1))"
          "winnerColor (stabLoop sk rj d' ! l)
              = winnerColor (d ! (if j < length d then j else length d - 1))"
          using goal by blast+
      qed
    qed
  qed
qed

section \<open>The points of the sweep\<close>

lemma pointCosts_absent:
  "(pointCosts st v PerSubmissionCache = None) = (st_displayMode st \<noteq> strategy_comparison)"
  "(pointCosts st v BatchInference = None)
     = (\<not> (st_displayMode st = strategy_comparison \<and> st_batchIncluded st))"
  by (simp_all add: pointCosts_def Let_def)

lemma rawPoint_fields:
  "pvalue (rawPoint st v) = v" "cost (rawPoint st v) = pointCosts st v"
  by (simp_all add: rawPoint_def finishPoint_def Let_def)

lemma allKeys_rawPoint:
  "allKeys (stabKeysOf (st_summarizationEnabled st \<and> st_isConversational st)) (rawPoint st v)
     = sweepKeys st"
  by (simp add: allKeys_def sweepKeys_def rawPoint_fields pointCosts_absent)

lemma rawData_uniform:
  "\<forall>l<length (rawDataOf st).
     allKeys (stabKeysOf (st_summarizationEnabled st \<and> st_isConversational st))
       (rawDataOf st ! l) = sweepKeys st"
  by (simp add: rawDataOf_def allKeys_rawPoint)

lemma rawData_values: "map pvalue (rawDataOf st) = samplePoints st"
  by (simp add: rawDataOf_def rawPoint_fields comp_def)

lemma stabilized_values:
  assumes "stabilized K ri d out"
  shows "map pvalue out = map pvalue d"
  using assms by (intro nth_equalityI) (simp_all add: stabilized_def)

lemma sweep_values:
  "map pvalue (paramSensitivityData st) = (if st_supportsCaching st then samplePoints st else [])"
proof (cases "st_supportsCaching st")
  case True
  let ?sk = "stabKeysOf (st_summarizationEnabled st \<and> st_isConversational st)"
  have "stabilized (sweepKeys st) 0 (rawDataOf st) (stabLoop ?sk 0 (rawDataOf st))"
    using rawData_uniform by (rule stabLoop_stabilized)
  then have "map pvalue (stabLoop ?sk 0 (rawDataOf st)) = map pvalue (rawDataOf st)"
    by (rule stabilized_values)
  then show ?thesis
    using True by (simp add: paramSensitivityData_def rawData_values)
next
  case False
  then show ?thesis
    by (simp add: paramSensitivityData_def)
qed

lemma stabLoop_run:
  assumes "\<forall>l<length d. allKeys sk (d ! l) = K"
    and "k < j" and "j \<le> length d"
    and "\<forall>m. k \<le> m \<and> m < j \<longrightarrow> nearTie K (d ! m)"
    and "j < length d \<longrightarrow> \<not> nearTie K (d ! j)"
  shows "winner (stabLoop sk 0 d ! k) = winner (d ! (if j < length d then j else length d - 1))
    \<and> winnerColor (stabLoop sk 0 d ! k)
        = winnerColor (d ! (if j < length d then j else length d - 1))
    \<and> winner (stabLoop sk 0 d ! (if j < length d then j else length d - 1))
        = winner (d ! (if j < length d then j else length d - 1))
    \<and> winnerColor (stabLoop sk 0 d ! (if j < length d then j else length d - 1))
        = winnerColor (d ! (if j < length d then j else length d - 1))"
proof -
  let ?out = "stabLoop sk 0 d" and ?r = "if j < length d then j else length d - 1"
  have st: "stabilized K 0 d ?out"
    using assms(1) by (rule stabLoop_stabilized)
  have a: "winner (?out ! k) = winner (d ! ?r) \<and> winnerColor (?out ! k) = winnerColor (d ! ?r)"
    using st assms(2-5) unfolding stabilized_def by blast
  have b: "winner (?out ! ?r) = winner (d ! ?r)
      \<and> winnerColor (?out ! ?r) = winnerColor (d ! ?r)"
  proof (cases "j < length d")
    case True
    then have "?out ! j = d ! j"
      using st assms(5) unfolding stabilized_def by blast
    then show ?thesis
      using True by simp
  next
    case False
    then have j: "j = length d"
      using assms(3) by simp
    have "0 \<le> length d - 1 \<and> length d - 1 < j \<and> j \<le> length d
        \<and> (\<forall>m. length d - 1 \<le> m \<and> m < j \<longrightarrow> nearTie K (d ! m))
        \<and> (j < length d \<longrightarrow> \<not> nearTie K (d ! j))"
      using assms(2-5) j by auto
    then have "winner (?out ! (length d - 1)) = winner (d ! ?r)
        \<and> winnerColor (?out ! (length d - 1)) = winnerColor (d ! ?r)"
      using st unfolding stabilized_def by blast
    then show ?thesis
      using False by simp
  qed
  show ?thesis
    using a b by blast
qed

text \<open>The same for the memo: the points of \<open>rawDataOf\<close> all have the keys \<open>sweepKeys\<close>.\<close>

lemma paramSensitivityData_run:
  assumes "st_supportsCaching st"
    and "k < j" and "j \<le> length (rawDataOf st)"
    and "\<forall>m. k \<le> m \<and> m < j \<longrightarrow> nearTie (sweepKeys st) (rawDataOf st ! m)"
    and "j < length (rawDataOf st) \<longrightarrow> \<not> nearTie (sweepKeys st) (rawDataOf st ! j)"
  shows "winner (paramSensitivityData st ! k)
      = winner (rawDataOf st ! (if j < length (rawDataOf st) then j
          else length (rawDataOf st) - 1))
    \<and> winnerColor (paramSensitivityData st ! k)
      = winnerColor (rawDataOf st ! (if j < length (rawDataOf st) then j
          else length (rawDataOf st) - 1))"
  using stabLoop_run [OF rawData_uniform assms(2-5)] assms(1)
  by (simp add: paramSensitivityData_def)

section \<open>C8: the values of a sweep\<close>

text \<open>
  C8 as stated fails: for a model that does not support caching the memo returns the
  empty list, which does not contain the current value of the swept parameter.
\<close>

theorem C8_counterexample:
  "paramSensitivityData (grafSimple\<lparr>st_supportsCaching := False\<rparr>) = []
   \<and> currentValueOf (grafSimple\<lparr>st_supportsCaching := False\<rparr>)
       \<notin> set (map pvalue (paramSensitivityData (grafSimple\<lparr>st_supportsCaching := False\<rparr>)))"
  by (simp add: paramSensitivityData_def)

text \<open>
  C8 (amended): when the selected model supports caching, the sequence of parameter values
  of \<open>paramSensitivityData\<close> is strictly increasing and contains the current value of the
  swept parameter. (When it does not, the sweep is empty.)
\<close>

theorem C8_sweep_values:
  assumes "st_supportsCaching st"
  shows "sorted_wrt (<) (map pvalue (paramSensitivityData st))
    \<and> currentValueOf st \<in> set (map pvalue (paramSensitivityData st))"
  using assms samplePoints_strict [of st] by (simp only: sweep_values if_True)

theorem C8_witness:
  "st_supportsCaching grafSimple
   \<and> sorted_wrt (<) (map pvalue (paramSensitivityData grafSimple))
   \<and> currentValueOf grafSimple \<in> set (map pvalue (paramSensitivityData grafSimple))"
proof -
  have s: "st_supportsCaching grafSimple"
    by (simp add: grafSimple_def)
  show ?thesis
    using s C8_sweep_values [OF s] by simp
qed

section \<open>C2: the stabilization pass\<close>

lemma mkPoint_eval:
  "allKeys [NoCaching, PerAssignmentCache] (mkPoint v c1 c2) = [NoCaching, PerAssignmentCache]"
  "sortedCosts [NoCaching, PerAssignmentCache] (mkPoint v c1 c2) = sort [c1, c2]"
  by (simp_all add: allKeys_def sortedCosts_def mkPoint_def finishPoint_def Let_def)

lemma mkPoint_winner:
  "winner (mkPoint v c1 c2) =
     Some (if c1 - c2 < 0 then NoCaching else PerAssignmentCache)"
  by (simp add: mkPoint_def finishPoint_def Let_def stabKeysOf_def entriesOf_def
      js_sort_def costCompare_def)

text \<open>
  C2: in the stabilization pass over points that all store totals for the same strategies
  \<open>K\<close> (as the points of a sweep do), whenever the points from \<open>k\<close> up to but not including
  \<open>j\<close> are near-ties (the gap between the two cheapest totals is below 0.005) and the run
  ends at \<open>j\<close> (\<open>j\<close> is the end of the grid, or the point at \<open>j\<close> is no near-tie), the
  point at \<open>k\<close> is assigned the winner and the winner colour that the point at \<open>j\<close> has,
  or that the last point has if the run extends to the end of the grid; and that point
  keeps its winner and colour. This holds for every \<open>k\<close> in a maximal run, whose end is
  such a \<open>j\<close>. In particular, for three consecutive points with the costs
  [10.001, 9.999], [10, 10], [12, 8] the winner at the first two points is the winner
  computed at the third.
\<close>

theorem C2_stabilization:
  assumes "\<forall>l<length d. allKeys sk (d ! l) = K"
    and "k < j" and "j \<le> length d"
    and "\<forall>m. k \<le> m \<and> m < j \<longrightarrow> nearTie K (d ! m)"
    and "j < length d \<longrightarrow> \<not> nearTie K (d ! j)"
  shows "winner (stabLoop sk 0 d ! k) = winner (d ! (if j < length d then j else length d - 1))
    \<and> winnerColor (stabLoop sk 0 d ! k)
        = winnerColor (d ! (if j < length d then j else length d - 1))
    \<and> winner (stabLoop sk 0 d ! (if j < length d then j else length d - 1))
        = winner (d ! (if j < length d then j else length d - 1))
    \<and> winnerColor (stabLoop sk 0 d ! (if j < length d then j else length d - 1))
        = winnerColor (d ! (if j < length d then j else length d - 1))"
  using assms by (rule stabLoop_run)

theorem C2_witness:
  "nearTie [NoCaching, PerAssignmentCache] (specExample ! 0)
   \<and> nearTie [NoCaching, PerAssignmentCache] (specExample ! 1)
   \<and> \<not> nearTie [NoCaching, PerAssignmentCache] (specExample ! 2)
   \<and> winner (specExample ! 2) = Some PerAssignmentCache
   \<and> winner (stabLoop [NoCaching, PerAssignmentCache] 0 specExample ! 0)
       = winner (specExample ! 2)
   \<and> winner (stabLoop [NoCaching, PerAssignmentCache] 0 specExample ! 1)
       = winner (specExample ! 2)
   \<and> winner (stabLoop [NoCaching, PerAssignmentCache] 0 specExample ! 2)
       = winner (specExample ! 2)
   \<and> winner (flipExample ! 0) = Some NoCaching
   \<and> winner (stabLoop [NoCaching, PerAssignmentCache] 0 flipExample ! 0)
       = Some PerAssignmentCache
   \<and> winnerColor (stabLoop [NoCaching, PerAssignmentCache] 0 flipExample ! 0) = ''#3b82f6''"
proof -
  let ?K = "[NoCaching, PerAssignmentCache]"
  have "\<forall>p\<in>set specExample. allKeys ?K p = ?K"
    by (simp add: specExample_def mkPoint_eval)
  then have u: "\<forall>l<length specExample. allKeys ?K (specExample ! l) = ?K"
    by (simp only: all_set_conv_all_nth)
  have "\<forall>p\<in>set flipExample. allKeys ?K p = ?K"
    by (simp add: flipExample_def mkPoint_eval)
  then have u': "\<forall>l<length flipExample. allKeys ?K (flipExample ! l) = ?K"
    by (simp only: all_set_conv_all_nth)
  have len: "(2::nat) \<le> length specExample" "(2::nat) \<le> length flipExample"
    by (simp_all add: specExample_def flipExample_def)
  have t: "nearTie ?K (specExample ! 0)" "nearTie ?K (specExample ! 1)"
    "\<not> nearTie ?K (specExample ! 2)"
    "nearTie ?K (flipExample ! 0)" "nearTie ?K (flipExample ! 1)"
    "\<not> nearTie ?K (flipExample ! 2)"
    by (simp_all add: specExample_def flipExample_def nearTie_def mkPoint_eval Let_def)
  have r0: "\<forall>m. 0 \<le> m \<and> m < 2 \<longrightarrow> nearTie ?K (specExample ! m)"
  proof (intro allI impI)
    fix m :: nat
    assume "0 \<le> m \<and> m < 2"
    then have "m = 0 \<or> m = 1"
      by arith
    then show "nearTie ?K (specExample ! m)"
      using t by auto
  qed
  have r1: "\<forall>m. 1 \<le> m \<and> m < 2 \<longrightarrow> nearTie ?K (specExample ! m)"
  proof (intro allI impI)
    fix m :: nat
    assume "1 \<le> m \<and> m < 2"
    then have "m = 1"
      by arith
    then show "nearTie ?K (specExample ! m)"
      using t by auto
  qed
  have r0': "\<forall>m. 0 \<le> m \<and> m < 2 \<longrightarrow> nearTie ?K (flipExample ! m)"
  proof (intro allI impI)
    fix m :: nat
    assume "0 \<le> m \<and> m < 2"
    then have "m = 0 \<or> m = 1"
      by arith
    then show "nearTie ?K (flipExample ! m)"
      using t by auto
  qed
  have s: "(2::nat) < length specExample \<longrightarrow> \<not> nearTie ?K (specExample ! 2)"
    "(2::nat) < length flipExample \<longrightarrow> \<not> nearTie ?K (flipExample ! 2)"
    using t by simp_all
  have w: "winner (specExample ! 2) = Some PerAssignmentCache"
    "winner (flipExample ! 2) = Some PerAssignmentCache"
    "winner (flipExample ! 0) = Some NoCaching"
    "winnerColor (flipExample ! 2) = ''#3b82f6''"
    by (simp_all add: specExample_def flipExample_def mkPoint_winner)
      (simp add: mkPoint_def finishPoint_def Let_def stabKeysOf_def entriesOf_def
        js_sort_def costCompare_def)
  have l3: "length specExample = 3" "length flipExample = 3"
    by (simp_all add: specExample_def flipExample_def)
  show ?thesis
    using C2_stabilization [OF u _ len(1) r0 s(1)] C2_stabilization [OF u _ len(1) r1 s(1)]
      C2_stabilization [OF u' _ len(2) r0' s(2)] t w
    by (simp add: l3)
qed

section \<open>C10: the guardrails cost\<close>

lemma guardrails_zero:
  "guardrails (computeNoCaching m st rq sy cx sb ins out tm) = 0"
  "guardrails (computeStrategyA m st rq sy cx sb ins out tm ttl) = 0"
  "guardrails (computeStrategyB m st rq sy cx sb ins out tm sc ttl) = 0"
  "guardrails (computeBatch m st rq sy cx sb ins out tm) = 0"
  "guardrails (computeSumNoCaching m st rq sy cx sb ins out sz tm) = 0"
  "guardrails (computeSumCacheAssessment m st rq sy cx sb ins out sz tm ttl) = 0"
  "guardrails (computeSumCacheSummary m st rq sy cx sb ins out sz tm ttl) = 0"
  by (simp_all only: computeNoCaching_def computeStrategyA_def computeStrategyB_def
      computeBatch_def computeSumNoCaching_def computeSumCacheAssessment_def
      computeSumCacheSummary_def Let_def CostBreakdown.select_convs)

lemma guardrails_formula:
  "computeGuardrailsCost n i ou = of_int n * (i + ou) * 4 / 1000 / 1000 * 0.15"
  by (simp add: computeGuardrailsCost_def CHARS_PER_TOKEN_def GUARDRAILS_COST_PER_1K_UNITS_def
      Let_def)

lemma sweep_adds_guardrails:
  "pointCosts st val k =
     (if sweepHasKey st k then Some (sweepBreakdownTotal st val k + sweepGuardrails st val)
      else None)"
  by (cases k)
    (simp_all add: pointCosts_def sweepHasKey_def sweepBreakdownTotal_def sweepGuardrails_def
      Let_def)

lemma addGuardrails_fields:
  "guardrails (addGuardrails b g) = g" "total (addGuardrails b g) = total b + g"
  "cacheWrite (addGuardrails b g) = cacheWrite b" "cacheRead (addGuardrails b g) = cacheRead b"
  "freshInput (addGuardrails b g) = freshInput b" "output' (addGuardrails b g) = output' b"
  by (simp_all add: addGuardrails_def)

lemma results_guardrails:
  "guardrails (res_noCaching (results st)) = resultsGuardrailsCost st"
  "map_option guardrails (res_strategyA (results st))
     = (if st_supportsCaching st then Some (resultsGuardrailsCost st) else None)"
  "map_option guardrails (res_strategyB (results st))
     = (if st_supportsCaching st then Some (resultsGuardrailsCost st) else None)"
  "map_option guardrails (res_batch (results st))
     = (if st_batchIncluded st then Some (resultsGuardrailsCost st) else None)"
  by (simp_all add: results_def Let_def resultsGuardrailsCost_def addGuardrails_fields)

lemma results_total:
  "total (res_noCaching (results st)) =
     total (computeNoCaching (st_selectedModel st) (st_students st) (st_reqsPerStudent st)
       (of_int (st_sysTokens st)) (of_int (st_ctxTokens st))
       (getEffectiveSubTokens (of_int (st_subTokens st)) (st_reqsPerStudent st)
          (st_isProgressiveSubmission st))
       (getEffectiveInstTokens (of_int (st_instTokens st)) (st_reqsPerStudent st)
          (of_int (st_outputTokens st)) (st_isConversational st))
       (of_int (st_outputTokens st)) (st_tierMultiplier st))
     + resultsGuardrailsCost st"
  "map_option total (res_strategyA (results st)) =
     (if st_supportsCaching st
      then Some (total (computeStrategyA (st_selectedModel st) (st_students st)
           (st_reqsPerStudent st) (of_int (st_sysTokens st)) (of_int (st_ctxTokens st))
           (getEffectiveSubTokens (of_int (st_subTokens st)) (st_reqsPerStudent st)
              (st_isProgressiveSubmission st))
           (getEffectiveInstTokens (of_int (st_instTokens st)) (st_reqsPerStudent st)
              (of_int (st_outputTokens st)) (st_isConversational st))
           (of_int (st_outputTokens st)) (st_tierMultiplier st) (st_effectiveCacheTTL st))
        + resultsGuardrailsCost st)
      else None)"
  "map_option total (res_strategyB (results st)) =
     (if st_supportsCaching st
      then Some (total (computeStrategyB (st_selectedModel st) (st_students st)
           (st_reqsPerStudent st) (of_int (st_sysTokens st)) (of_int (st_ctxTokens st))
           (getEffectiveSubTokens (of_int (st_subTokens st)) (st_reqsPerStudent st)
              (st_isProgressiveSubmission st))
           (getEffectiveInstTokens (of_int (st_instTokens st)) (st_reqsPerStudent st)
              (of_int (st_outputTokens st)) (st_isConversational st))
           (of_int (st_outputTokens st)) (st_tierMultiplier st)
           (st_submissionCacheable st) (st_effectiveCacheTTL st))
        + resultsGuardrailsCost st)
      else None)"
  "map_option total (res_batch (results st)) =
     (if st_batchIncluded st
      then Some (total (computeBatch (st_selectedModel st) (st_students st)
           (st_reqsPerStudent st) (of_int (st_sysTokens st)) (of_int (st_ctxTokens st))
           (getEffectiveSubTokens (of_int (st_subTokens st)) (st_reqsPerStudent st)
              (st_isProgressiveSubmission st))
           (getEffectiveInstTokens (of_int (st_instTokens st)) (st_reqsPerStudent st)
              (of_int (st_outputTokens st)) (st_isConversational st))
           (of_int (st_outputTokens st)) (st_tierMultiplier st))
        + resultsGuardrailsCost st)
      else None)"
  by (simp_all add: results_def Let_def resultsGuardrailsCost_def addGuardrails_fields)

text \<open>
  C10 as stated fails in its last part: the memo \<open>results\<close> does fold the guardrails cost
  into the breakdowns it got from the compute functions, by assigning their guardrails
  field. For the template "graf-simple" with guardrails switched on, the guardrails field
  of the no-caching breakdown is 150 * (2000 + 500) * 4 / 1000 / 1000 * 0.15 = 0.225.
\<close>

theorem C10_counterexample:
  "guardrails (res_noCaching (results grafSimple)) = 0.225
   \<and> guardrails (res_noCaching (results grafSimple)) \<noteq> 0"
  by (simp add: results_guardrails resultsGuardrailsCost_def grafSimple_def
      guardrails_formula getEffectiveSubTokens_def)

text \<open>
  C10 (amended): the guardrails field of the breakdown returned by every strategy compute
  function is exactly 0 for all inputs; the guardrails cost is produced only by
  \<open>computeGuardrailsCost\<close>, as
  \<open>totalRequests * (inputTokens + outputTokens) * 4 / 1000 / 1000 * 0.15\<close>, and is added by
  the caller: the sweep adds it to each strategy total that it stores in a point, and
  the memo \<open>results\<close> writes it into the guardrails field of each breakdown it holds and
  adds it to that breakdown's total.
\<close>

theorem C10_guardrails:
  "guardrails (computeNoCaching m st rq sy cx sb ins out tm) = 0
   \<and> guardrails (computeStrategyA m st rq sy cx sb ins out tm ttl) = 0
   \<and> guardrails (computeStrategyB m st rq sy cx sb ins out tm sc ttl) = 0
   \<and> guardrails (computeBatch m st rq sy cx sb ins out tm) = 0
   \<and> guardrails (computeSumNoCaching m st rq sy cx sb ins out sz tm) = 0
   \<and> guardrails (computeSumCacheAssessment m st rq sy cx sb ins out sz tm ttl) = 0
   \<and> guardrails (computeSumCacheSummary m st rq sy cx sb ins out sz tm ttl) = 0
   \<and> computeGuardrailsCost n i ou = of_int n * (i + ou) * 4 / 1000 / 1000 * 0.15
   \<and> pointCosts state val k =
       (if sweepHasKey state k
        then Some (sweepBreakdownTotal state val k + sweepGuardrails state val) else None)
   \<and> guardrails (res_noCaching (results state)) = resultsGuardrailsCost state
   \<and> total (res_noCaching (results state)) =
       total (computeNoCaching (st_selectedModel state) (st_students state)
         (st_reqsPerStudent state) (of_int (st_sysTokens state)) (of_int (st_ctxTokens state))
         (getEffectiveSubTokens (of_int (st_subTokens state)) (st_reqsPerStudent state)
            (st_isProgressiveSubmission state))
         (getEffectiveInstTokens (of_int (st_instTokens state)) (st_reqsPerStudent state)
            (of_int (st_outputTokens state)) (st_isConversational state))
         (of_int (st_outputTokens state)) (st_tierMultiplier state))
       + resultsGuardrailsCost state
   \<and> map_option guardrails (res_strategyA (results state))
       = (if st_supportsCaching state then Some (resultsGuardrailsCost state) else None)
   \<and> map_option guardrails (res_strategyB (results state))
       = (if st_supportsCaching state then Some (resultsGuardrailsCost state) else None)
   \<and> map_option guardrails (res_batch (results state))
       = (if st_batchIncluded state then Some (resultsGuardrailsCost state) else None)
   \<and> map_option total (res_strategyA (results state)) =
       (if st_supportsCaching state
        then Some (total (computeStrategyA (st_selectedModel state) (st_students state)
             (st_reqsPerStudent state) (of_int (st_sysTokens state)) (of_int (st_ctxTokens state))
             (getEffectiveSubTokens (of_int (st_subTokens state)) (st_reqsPerStudent state)
                (st_isProgressiveSubmission state))
             (getEffectiveInstTokens (of_int (st_instTokens state)) (st_reqsPerStudent state)
                (of_int (st_outputTokens state)) (st_isConversational state))
             (of_int (st_outputTokens state)) (st_tierMultiplier state) (st_effectiveCacheTTL state))
          + resultsGuardrailsCost state)
        else None)
   \<and> map_option total (res_strategyB (results state)) =
       (if st_supportsCaching state
        then Some (total (computeStrategyB (st_selectedModel state) (st_students state)
             (st_reqsPerStudent state) (of_int (st_sysTokens state)) (of_int (st_ctxTokens state))
             (getEffectiveSubTokens (of_int (st_subTokens state)) (st_reqsPerStudent state)
                (st_isProgressiveSubmission state))
             (getEffectiveInstTokens (of_int (st_instTokens state)) (st_reqsPerStudent state)
                (of_int (st_outputTokens state)) (st_isConversational state))
             (of_int (st_outputTokens state)) (st_tierMultiplier state)
             (st_submissionCacheable state) (st_effectiveCacheTTL state))
          + resultsGuardrailsCost state)
        else None)
   \<and> map_option total (res_batch (results state)) =
       (if st_batchIncluded state
        then Some (total (computeBatch (st_selectedModel state) (st_students state)
             (st_reqsPerStudent state) (of_int (st_sysTokens state)) (of_int (st_ctxTokens state))
             (getEffectiveSubTokens (of_int (st_subTokens state)) (st_reqsPerStudent state)
                (st_isProgressiveSubmission state))
             (getEffectiveInstTokens (of_int (st_instTokens state)) (st_reqsPerStudent state)
                (of_int (st_outputTokens state)) (st_isConversational state))
             (of_int (st_outputTokens state)) (st_tierMultiplier state))
          + resultsGuardrailsCost state)
        else None)"
  by (intro conjI guardrails_zero guardrails_formula sweep_adds_guardrails results_guardrails
      results_total)

theorem C10_witness:
  "guardrails (computeStrategyA anthropicLike 30 5 1000 500 2000 200 500 1 TTL_5min) = 0
   \<and> computeGuardrailsCost 150 2000 500 = 0.225
   \<and> sweepHasKey grafSimple NoCaching
   \<and> sweepGuardrails grafSimple 500 = 0.225
   \<and> pointCosts grafSimple 500 NoCaching
       = Some (sweepBreakdownTotal grafSimple 500 NoCaching + 0.225)
   \<and> guardrails (res_noCaching (results grafSimple)) = 0.225
   \<and> map_option guardrails (res_strategyA (results grafSimple)) = Some 0.225
   \<and> total (computeNoCaching anthropicLike 30 5 1000 500 2000 200 500 1) = 2.79
   \<and> total (res_noCaching (results grafSimple)) = 3.015
   \<and> total (computeStrategyA anthropicLike 30 5 1000 500 2000 200 500 1 TTL_5min) = 2.187675
   \<and> map_option total (res_strategyA (results grafSimple)) = Some 2.412675
   \<and> total (computeStrategyB anthropicLike 30 5 1000 500 2000 200 500 1 True TTL_5min)
       = 1.73475
   \<and> map_option total (res_strategyB (results grafSimple)) = Some 1.95975
   \<and> map_option total (res_batch (results grafSimple)) = None"
proof -
  have g: "resultsGuardrailsCost grafSimple = 0.225"
    by (simp add: resultsGuardrailsCost_def grafSimple_def guardrails_formula
        getEffectiveSubTokens_def)
  have h: "sweepHasKey grafSimple NoCaching" "st_supportsCaching grafSimple"
    "\<not> st_batchIncluded grafSimple"
    by (simp_all add: sweepHasKey_def grafSimple_def)
  have w: "sweepGuardrails grafSimple 500 = 0.225"
    by (simp add: sweepGuardrails_def argsAt_def grafSimple_def guardrails_formula
        getEffectiveSubTokens_def)
  have a: "st_selectedModel grafSimple = anthropicLike" "st_students grafSimple = 30"
    "st_reqsPerStudent grafSimple = 5" "st_sysTokens grafSimple = 1000"
    "st_ctxTokens grafSimple = 500" "st_outputTokens grafSimple = 500"
    "st_tierMultiplier grafSimple = 1" "st_effectiveCacheTTL grafSimple = TTL_5min"
    "st_submissionCacheable grafSimple"
    "st_subTokens grafSimple = 2000" "st_instTokens grafSimple = 200"
    "\<not> st_isProgressiveSubmission grafSimple" "\<not> st_isConversational grafSimple"
    by (simp_all add: grafSimple_def)
  have e: "getEffectiveSubTokens 2000 5 False = 2000"
    "getEffectiveInstTokens 200 5 500 False = 200"
    by (simp_all add: getEffectiveSubTokens_def getEffectiveInstTokens_def)
  have t: "total (computeNoCaching anthropicLike 30 5 1000 500 2000 200 500 1) = 2.79"
    "total (computeStrategyA anthropicLike 30 5 1000 500 2000 200 500 1 TTL_5min) = 2.187675"
    "total (computeStrategyB anthropicLike 30 5 1000 500 2000 200 500 1 True TTL_5min)
       = 1.73475"
    by (simp_all add: computeNoCaching_def computeStrategyA_def computeStrategyB_def
        getCacheWritePrice_def anthropicLike_def Let_def)
  show ?thesis
    using C10_guardrails [of anthropicLike 30 5 1000 500 2000 200 500 1 TTL_5min True 500 150
        2000 500 grafSimple 500 NoCaching] g h w
    by (simp add: a e t)
qed

end
